theory Spec2Isabelle
  imports
    Main
    "HOL-Library.Char_ord"
    "HOL-Library.List_Lexorder"
    "HOL-Library.Sublist"
    "HOL-Library.Multiset"
begin

section \<open>Data model\<close>

text \<open>
  The program is \<^verbatim>\<open>src/src/hotwheel_scrape.py\<close>. Its tables are pandas DataFrames. A
  frame is its list of column labels and its list of rows, each row holding one cell per
  column; a cell is \<open>None\<close> for NaN and \<open>Some v\<close> for a value.

  \<^verbatim>\<open>pd.read_html\<close> infers the type of each column: a column whose cells all read as
  numbers comes out as numbers, any other column as text. A value of a scraped frame is
  therefore a \<open>pyval\<close>, a text \<open>Str s\<close> or a number \<open>Num n\<close>; the type \<open>'n\<close> of the
  numbers is any linearly ordered type (\<open>int\<close> in the concrete inputs). Strings compare as
  Python's \<^verbatim>\<open>str\<close> does, character by character (\<open>Char_ord\<close>, \<open>List_Lexorder\<close>).
\<close>

datatype 'n pyval = Str string | Num 'n

record 'v dataframe =
  columns :: "string list"
  rows :: "'v option list list"

definition empty_frame :: "'v dataframe" where
  \<comment> \<open>\<^verbatim>\<open>pd.DataFrame()\<close>\<close>
  "empty_frame = \<lparr>columns = [], rows = []\<rparr>"

definition BASE_URL :: string where
  "BASE_URL = ''https://onlineredlineguide.com''"

definition OUTPUT_DIR :: string where
  "OUTPUT_DIR = ''output/reports''"

section \<open>Exceptions, the log and the files\<close>

text \<open>
  An \<open>exn\<close> is a Python exception derived from \<^verbatim>\<open>Exception\<close>, kept by the class
  that decides which \<^verbatim>\<open>except\<close> clause of \<^verbatim>\<open>scrape_url\<close> takes it, with its
  message. \<open>RequestException\<close> stands for \<^verbatim>\<open>requests.RequestException\<close> and its
  subclasses (\<^verbatim>\<open>HTTPError\<close>, \<^verbatim>\<open>Timeout\<close>, \<^verbatim>\<open>ConnectionError\<close>), \<open>ValueError\<close> for
  the other subclasses of \<^verbatim>\<open>ValueError\<close>, and \<open>IndexError\<close>, \<open>TypeError\<close>, \<open>OSError\<close>
  and \<open>OtherException\<close> for everything else.
\<close>

datatype exn =
    RequestException string
  | ValueError string
  | IndexError string
  | TypeError string
  | OSError string
  | OtherException string

datatype log_entry =
    Info string
  | Exception_traceback string

type_synonym catalog_row = "string \<times> string list \<times> string list"

record catalog =
  key_column :: string
  catalog_rows :: "catalog_row list"

datatype 'n file_content =
    Frame_csv "'n pyval dataframe"
  | Catalog_csv catalog
  | Catalog_json catalog

record 'n world =
  files :: "string \<rightharpoonup> 'n file_content"
  logged :: "log_entry list"

record response =
  status_code :: int
  resp_text :: string

text \<open>
  The \<^verbatim>\<open>table\<close> element that \<^verbatim>\<open>soup.find("table")\<close> returns, as pandas reads it: the
  text nodes below it, and the frames \<^verbatim>\<open>pd.read_html\<close> builds from it and from the
  tables nested in it. A table that has a header row and no data row gives a frame with
  no rows; a table from which no row at all can be read gives no frame.
\<close>

record 'n table_elem =
  text_nodes :: "string list"
  logical_tables :: "'n pyval dataframe list"

text \<open>
  What the program takes from outside: the answer of \<^verbatim>\<open>requests.get\<close> to a URL, the
  first table of an HTML text, and whether \<^verbatim>\<open>os.makedirs\<close> and a file write fail.
\<close>

record 'n env =
  requests_get :: "string \<Rightarrow> exn + response"
  soup_find_table :: "string \<Rightarrow> 'n table_elem option"
  os_makedirs :: "string \<Rightarrow> exn option"
  file_write :: "string \<Rightarrow> exn option"

definition log_message :: "'n world \<Rightarrow> string \<Rightarrow> 'n world" where
  "log_message w msg = w\<lparr>logged := logged w @ [Info msg]\<rparr>"

definition logger_exception :: "'n world \<Rightarrow> string \<Rightarrow> 'n world" where
  "logger_exception w msg = w\<lparr>logged := logged w @ [Exception_traceback msg]\<rparr>"

definition write_file :: "'n world \<Rightarrow> string \<Rightarrow> 'n file_content \<Rightarrow> 'n world" where
  "write_file w path content = w\<lparr>files := (files w)(path \<mapsto> content)\<rparr>"

section \<open>The normalizer: lines 74 to 91 of \<^verbatim>\<open>scrape_url\<close>\<close>

definition stack :: "'v dataframe \<Rightarrow> 'v list" where
  \<comment> \<open>\<^verbatim>\<open>df.stack().reset_index(drop=True)\<close>: the cells row by row, every column of a
      row in order, NaN cells dropped (\<^verbatim>\<open>dropna=True\<close>, the default of \<^verbatim>\<open>stack\<close>)\<close>
  "stack df = concat (map (\<lambda>r. concat (map (\<lambda>c. case c of None \<Rightarrow> [] | Some v \<Rightarrow> [v]) r)) (rows df))"

definition to_frame :: "string \<Rightarrow> 'v list \<Rightarrow> 'v dataframe" where
  \<comment> \<open>\<^verbatim>\<open>.to_frame(name=main_column_name)\<close>: a frame of one column\<close>
  "to_frame name vs = \<lparr>columns = [name], rows = map (\<lambda>v. [Some v]) vs\<rparr>"

fun is_text :: "'n pyval \<Rightarrow> bool" where
  "is_text (Str s) = True"
| "is_text (Num n) = False"

fun is_number :: "'n pyval \<Rightarrow> bool" where
  "is_number (Str s) = False"
| "is_number (Num n) = True"

definition texts :: "'n pyval list \<Rightarrow> string list" where
  "texts vs = concat (map (\<lambda>v. case v of Str s \<Rightarrow> [s] | Num n \<Rightarrow> []) vs)"

definition numbers :: "'n pyval list \<Rightarrow> 'n list" where
  "numbers vs = concat (map (\<lambda>v. case v of Str s \<Rightarrow> [] | Num n \<Rightarrow> [n]) vs)"

definition sort_values :: "'n::linorder pyval list \<Rightarrow> exn + 'n pyval list" where
  \<comment> \<open>\<^verbatim>\<open>df.sort_values(by=main_column_name)\<close> on the one column: text in the order of
      \<^verbatim>\<open>str\<close>, numbers in numeric order; Python cannot compare a text with a number, and
      a column that holds both makes the sort raise \<^verbatim>\<open>TypeError\<close>. Its message names the
      two Python types compared and is given here without them; no log entry shows it.\<close>
  "sort_values vs =
    (if list_all is_text vs then Inr (map Str (sort (texts vs)))
     else if list_all is_number vs then Inr (map Num (sort (numbers vs)))
     else Inl (TypeError ''< not supported between instances of str and a number''))"

definition rename_map :: "(string \<times> string) list" where
  "rename_map =
    [(''Mongoose 2'', ''Mongoose II''),
     (''Snake 2'', ''Snake II''),
     (''Mongoose II Funny Car'', ''Mongoose II''),
     (''Snake II Funny Car'', ''Snake II''),
     (''Mongoose Funny Car'', ''Mongoose''),
     (''Snake Funny Car'', ''Snake''),
     (''Mongoose Funny Rail Dragster'', ''Mongoose Rail Dragster''),
     (''Alive 55'', ''Alive '55''),
     (''King Cuda'', ''King 'Cuda''),
     (''Grasshopper'', ''Grass Hopper'')]"

fun replace_value :: "(string \<times> string) list \<Rightarrow> 'n pyval \<Rightarrow> 'n pyval" where
  \<comment> \<open>one cell under \<^verbatim>\<open>Series.replace(dict)\<close>: a value equal to a key becomes that
      key's value, any other value stays; the keys are text, so no number is equal to one\<close>
  "replace_value m (Str s) = Str (case map_of m s of None \<Rightarrow> s | Some w \<Rightarrow> w)"
| "replace_value m (Num n) = Num n"

definition replace :: "(string \<times> string) list \<Rightarrow> 'n pyval list \<Rightarrow> 'n pyval list" where
  "replace m vs = map (replace_value m) vs"

fun drop_duplicates_from :: "'a list \<Rightarrow> 'a list \<Rightarrow> 'a list" where
  "drop_duplicates_from seen [] = []"
| "drop_duplicates_from seen (x # xs) =
     (if x \<in> set seen then drop_duplicates_from seen xs
      else x # drop_duplicates_from (x # seen) xs)"

definition drop_duplicates :: "'a list \<Rightarrow> 'a list" where
  \<comment> \<open>\<^verbatim>\<open>df.drop_duplicates()\<close>, \<^verbatim>\<open>keep='first'\<close>: a row stays unless an equal row
      came before it\<close>
  "drop_duplicates xs = drop_duplicates_from [] xs"

definition normalize_values :: "'n::linorder pyval list \<Rightarrow> exn + 'n pyval list" where
  \<comment> \<open>lines 75 to 91 on the values of the one column\<close>
  "normalize_values vs =
    (case sort_values vs of
       Inl ex \<Rightarrow> Inl ex
     | Inr sorted_vs \<Rightarrow> Inr (drop_duplicates (replace rename_map sorted_vs)))"

definition normalize_frame :: "string \<Rightarrow> 'n::linorder pyval dataframe \<Rightarrow> exn + 'n pyval dataframe" where
  \<comment> \<open>lines 74 to 91\<close>
  "normalize_frame main_column_name df =
    (case normalize_values (stack df) of
       Inl ex \<Rightarrow> Inl ex
     | Inr vs \<Rightarrow> Inr (to_frame main_column_name vs))"

subsection \<open>The normalizer in the specification's words\<close>

text \<open>
  The specification takes every cell as the text the page shows. \<open>text_grid g\<close> is the
  scraped grid whose cells are the texts of \<open>g\<close>, and \<open>number_grid h\<close> the scraped grid
  whose cells are the numbers of \<open>h\<close>.
\<close>

definition text_grid :: "string option list list \<Rightarrow> 'n pyval option list list" where
  "text_grid g = map (map (map_option Str)) g"

definition number_grid :: "'n option list list \<Rightarrow> 'n pyval option list list" where
  "number_grid h = map (map (map_option Num)) h"

definition spec_flatten :: "'v option list list \<Rightarrow> 'v list" where
  \<comment> \<open>step 1: the grid as one sequence of cell values, row-major, all columns\<close>
  "spec_flatten grid = [v. r \<leftarrow> grid, Some v \<leftarrow> r]"

definition spec_synonym :: "string \<Rightarrow> string" where
  \<comment> \<open>step 4: the ten aliases, each compared with the whole value\<close>
  "spec_synonym v =
    (if v = ''Mongoose 2'' then ''Mongoose II''
     else if v = ''Snake 2'' then ''Snake II''
     else if v = ''Mongoose II Funny Car'' then ''Mongoose II''
     else if v = ''Snake II Funny Car'' then ''Snake II''
     else if v = ''Mongoose Funny Car'' then ''Mongoose''
     else if v = ''Snake Funny Car'' then ''Snake''
     else if v = ''Mongoose Funny Rail Dragster'' then ''Mongoose Rail Dragster''
     else if v = ''Alive 55'' then ''Alive '55''
     else if v = ''King Cuda'' then ''King 'Cuda''
     else if v = ''Grasshopper'' then ''Grass Hopper''
     else v)"

fun spec_dedupe :: "'a list \<Rightarrow> 'a list" where
  \<comment> \<open>step 5: every later copy of a value is removed, the order is kept\<close>
  "spec_dedupe [] = []"
| "spec_dedupe (x # xs) = x # spec_dedupe (filter (\<lambda>y. y \<noteq> x) xs)"

definition spec_normalize :: "string option list list \<Rightarrow> string list" where
  "spec_normalize grid = spec_dedupe (map spec_synonym (sort (spec_flatten grid)))"

function show_nat :: "nat \<Rightarrow> string" where
  \<comment> \<open>a natural number in decimal digits\<close>
  "show_nat n =
    (if n < 10 then [''0123456789'' ! n]
     else show_nat (n div 10) @ [''0123456789'' ! (n mod 10)])"
  by pat_completeness auto
termination
  by (relation "measure id") auto

fun cell_text :: "int pyval \<Rightarrow> string" where
  \<comment> \<open>the text of a cell of the page: a text as it is, a whole number in decimal digits\<close>
  "cell_text (Str s) = s"
| "cell_text (Num n) = (if n < 0 then CHR ''-'' # show_nat (nat (- n)) else show_nat (nat n))"

section \<open>Library calls of \<^verbatim>\<open>scrape_url\<close>\<close>

definition raise_for_status :: "response \<Rightarrow> exn + unit" where
  \<comment> \<open>\<^verbatim>\<open>requests\<close> raises \<^verbatim>\<open>HTTPError\<close> for a client error (400 to 499) and for a
      server error (500 to 599), and for no other status; the message, shortened here, also
      holds the status, the reason and the URL\<close>
  "raise_for_status r =
    (if 400 \<le> status_code r \<and> status_code r < 500 then Inl (RequestException ''Client Error'')
     else if 500 \<le> status_code r \<and> status_code r < 600 then Inl (RequestException ''Server Error'')
     else Inr ())"

definition text_matches :: "string \<Rightarrow> bool" where
  \<comment> \<open>the default \<^verbatim>\<open>match\<close> of \<^verbatim>\<open>read_html\<close>, the pattern \<^verbatim>\<open>.+\<close>: some character
      that is not a newline\<close>
  "text_matches s = list_ex (\<lambda>c. c \<noteq> CHR 0x0A) s"

definition no_tables_found :: string where
  \<comment> \<open>the message of pandas: \<^verbatim>\<open>No tables found matching pattern '.+'\<close>\<close>
  "no_tables_found = ''No tables found matching pattern '' @ [CHR 0x27] @ ''.+'' @ [CHR 0x27]"

definition read_html :: "'n table_elem \<Rightarrow> exn + 'n pyval dataframe list" where
  \<comment> \<open>\<^verbatim>\<open>pd.read_html\<close> raises \<^verbatim>\<open>ValueError\<close> when no table holds text that matches\<close>
  "read_html t =
    (if list_ex text_matches (text_nodes t) then Inr (logical_tables t)
     else Inl (ValueError no_tables_found))"

definition list_getitem :: "'a list \<Rightarrow> int \<Rightarrow> exn + 'a" where
  \<comment> \<open>\<^verbatim>\<open>xs[i]\<close>: an index below zero counts from the end\<close>
  "list_getitem xs i =
    (if 0 \<le> i \<and> i < int (length xs) then Inr (xs ! nat i)
     else if i < 0 \<and> - i \<le> int (length xs) then Inr (xs ! nat (int (length xs) + i))
     else Inl (IndexError ''list index out of range''))"

definition iloc_set_column_nan :: "'v dataframe \<Rightarrow> nat \<Rightarrow> exn + 'v dataframe" where
  \<comment> \<open>\<^verbatim>\<open>df.iloc[:, j] = np.nan\<close>\<close>
  "iloc_set_column_nan df j =
    (if j < length (columns df) then Inr (df\<lparr>rows := map (\<lambda>r. r[j := None]) (rows df)\<rparr>)
     else Inl (IndexError ''iloc cannot enlarge its target object''))"

fun str_contains :: "string \<Rightarrow> string \<Rightarrow> bool" where
  \<comment> \<open>\<^verbatim>\<open>sub in s\<close>\<close>
  "str_contains sub [] = (sub = [])"
| "str_contains sub (c # cs) = (prefix sub (c # cs) \<or> str_contains sub cs)"

definition dirname :: "string \<Rightarrow> string" where
  \<comment> \<open>\<^verbatim>\<open>posixpath.dirname\<close>: up to the last slash, then without trailing slashes unless
      it is slashes only\<close>
  "dirname p =
    (let head = rev (dropWhile (\<lambda>c. c \<noteq> CHR ''/'') (rev p))
     in if list_ex (\<lambda>c. c \<noteq> CHR ''/'') head
        then rev (dropWhile (\<lambda>c. c = CHR ''/'') (rev head))
        else head)"

function str_replace :: "string \<Rightarrow> string \<Rightarrow> string \<Rightarrow> string" where
  \<comment> \<open>\<^verbatim>\<open>s.replace(old, new)\<close> for a non-empty \<^verbatim>\<open>old\<close>\<close>
  "str_replace old new [] = []"
| "str_replace old new (c # cs) =
     (if old \<noteq> [] \<and> prefix old (c # cs)
      then new @ str_replace old new (drop (length old) (c # cs))
      else c # str_replace old new cs)"
  by pat_completeness auto
termination
  by (relation "measure (\<lambda>(old, new, s). length s)") auto

section \<open>\<^verbatim>\<open>scrape_url\<close>\<close>

definition scrape_try ::
  "'n::linorder env \<Rightarrow> 'n world \<Rightarrow> string \<Rightarrow> int \<Rightarrow> string \<Rightarrow> string
    \<Rightarrow> (exn + 'n pyval dataframe) \<times> 'n world" where
  \<comment> \<open>the body of the \<^verbatim>\<open>try\<close>, lines 57 to 97: \<open>Inl e\<close> when it raises \<open>e\<close>\<close>
  "scrape_try e w url table_index outfile main_column_name =
    (let w1 = log_message w (''Fetching URL: '' @ url) in
     case requests_get e url of
       Inl ex \<Rightarrow> (Inl ex, w1)
     | Inr response \<Rightarrow>
     (case raise_for_status response of
       Inl ex \<Rightarrow> (Inl ex, w1)
     | Inr _ \<Rightarrow>
     (case soup_find_table e (resp_text response) of
       None \<Rightarrow>
         (Inl (ValueError (''No table found at '' @ url)),
          log_message w1 (''No table found at '' @ url @ ''.''))
     | Some table \<Rightarrow>
     (case read_html table of
       Inl ex \<Rightarrow> (Inl ex, w1)
     | Inr tables \<Rightarrow>
     (case list_getitem tables table_index of
       Inl ex \<Rightarrow> (Inl ex, w1)
     | Inr df \<Rightarrow>
     (case (if str_contains ''snake_mongoose'' outfile then iloc_set_column_nan df 1 else Inr df) of
       Inl ex \<Rightarrow> (Inl ex, w1)
     | Inr df1 \<Rightarrow>
     (case normalize_frame main_column_name df1 of
       Inl ex \<Rightarrow> (Inl ex, w1)
     | Inr df2 \<Rightarrow>
     (case os_makedirs e (dirname outfile) of
       Some ex \<Rightarrow> (Inl ex, w1)
     | None \<Rightarrow>
     (case file_write e outfile of
       Some ex \<Rightarrow> (Inl ex, w1)
     | None \<Rightarrow>
         (Inr df2,
          log_message (write_file w1 outfile (Frame_csv df2))
            (''Data saved to '' @ outfile @ ''.'')))))))))))"

fun handle_exception :: "'n world \<Rightarrow> string \<Rightarrow> exn \<Rightarrow> 'n world" where
  \<comment> \<open>the three \<^verbatim>\<open>except\<close> clauses, lines 99 to 104, in their order\<close>
  "handle_exception w url (RequestException m) =
     log_message w (''Error fetching the URL '' @ url @ '': '' @ m)"
| "handle_exception w url (ValueError m) = log_message w (''ValueError: '' @ m)"
| "handle_exception w url ex = logger_exception w (''Unexpected error processing '' @ url)"

definition scrape_url ::
  "'n::linorder env \<Rightarrow> 'n world \<Rightarrow> string \<Rightarrow> int \<Rightarrow> string \<Rightarrow> string
    \<Rightarrow> 'n pyval dataframe option \<times> 'n world" where
  "scrape_url e w url table_index outfile main_column_name =
    (case scrape_try e w url table_index outfile main_column_name of
       (Inr df, w') \<Rightarrow> (Some df, w')
     | (Inl ex, w') \<Rightarrow> (None, handle_exception w' url ex))"

section \<open>Frames put together\<close>

definition row_get :: "string list \<Rightarrow> 'v option list \<Rightarrow> string \<Rightarrow> 'v option" where
  \<comment> \<open>the cell of a row under a column label, NaN when the frame has no such column\<close>
  "row_get cols r c = (case map_of (zip cols r) c of None \<Rightarrow> None | Some x \<Rightarrow> x)"

definition assign_column :: "'v dataframe \<Rightarrow> string \<Rightarrow> 'v \<Rightarrow> 'v dataframe" where
  \<comment> \<open>\<^verbatim>\<open>df[key] = v\<close>: a new last column, or the column of that label overwritten\<close>
  "assign_column df key v =
    (if key \<in> set (columns df)
     then df\<lparr>rows := map (\<lambda>r. map (\<lambda>(c, x). if c = key then Some v else x) (zip (columns df) r)) (rows df)\<rparr>
     else \<lparr>columns = columns df @ [key], rows = map (\<lambda>r. r @ [Some v]) (rows df)\<rparr>)"

definition pd_concat :: "'v dataframe list \<Rightarrow> 'v dataframe" where
  \<comment> \<open>\<^verbatim>\<open>pd.concat(dfs, ignore_index=True)\<close> of at least one frame: the columns of all
      frames in the order they first appear, the rows of all frames in order, NaN where
      a frame has no such column\<close>
  "pd_concat dfs =
    (let cols = drop_duplicates (concat (map columns dfs))
     in \<lparr>columns = cols,
         rows = concat (map (\<lambda>df. map (\<lambda>r. map (row_get (columns df) r) cols) (rows df)) dfs)\<rparr>)"

section \<open>\<^verbatim>\<open>create_csv_files\<close>\<close>

text \<open>
  \<open>data_dict\<close> is the pair of the label list and the table index list, the two values
  of the dictionary. The worker threads write their own files and share nothing else, so
  the units are run one after the other in the order of submission; the order in which
  \<^verbatim>\<open>as_completed\<close> hands the futures back is the parameter \<open>completion\<close>.
\<close>

definition unit_outfile :: "string \<Rightarrow> string" where
  "unit_outfile year_or_series = OUTPUT_DIR @ ''/hotwheels-'' @ year_or_series @ ''.csv''"

definition unit_url :: "string \<Rightarrow> string" where
  "unit_url year_or_series = BASE_URL @ ''/'' @ year_or_series @ ''.html''"

fun submit_all ::
  "'n::linorder env \<Rightarrow> 'n world \<Rightarrow> string \<Rightarrow> (string \<times> int) list
    \<Rightarrow> (string \<times> 'n pyval dataframe option) list \<times> 'n world" where
  \<comment> \<open>lines 122 to 131: each future with its label\<close>
  "submit_all e w main_column_name [] = ([], w)"
| "submit_all e w main_column_name ((year_or_series, table_index) # units) =
     (let (df, w1) = scrape_url e w (unit_url year_or_series) table_index
                       (unit_outfile year_or_series) main_column_name;
          (futures, w2) = submit_all e w1 main_column_name units
      in ((year_or_series, df) # futures, w2))"

definition collect ::
  "string \<Rightarrow> (string \<times> 'n pyval dataframe option) list \<Rightarrow> 'n pyval dataframe list" where
  \<comment> \<open>lines 133 to 137\<close>
  "collect dict_key completed =
    concat (map (\<lambda>(year_or_series, df).
      case df of None \<Rightarrow> [] | Some d \<Rightarrow> [assign_column d dict_key (Str year_or_series)]) completed)"

definition create_csv_files ::
  "'n::linorder env
    \<Rightarrow> ((string \<times> 'n pyval dataframe option) list \<Rightarrow> (string \<times> 'n pyval dataframe option) list)
    \<Rightarrow> 'n world \<Rightarrow> string \<Rightarrow> string list \<times> int list \<Rightarrow> string
    \<Rightarrow> 'n pyval dataframe \<times> 'n world" where
  "create_csv_files e completion w main_column_name data_dict dict_key =
    (let w1 = log_message w (''Starting CSV creation for '' @ dict_key @ ''.'');
         (futures, w2) = submit_all e w1 main_column_name (zip (fst data_dict) (snd data_dict));
         all_df = collect dict_key (completion futures)
     in (if all_df \<noteq> [] then pd_concat all_df else empty_frame, w2))"

definition create_years_dict :: "string list \<times> int list" where
  "create_years_dict =
    ([''1968'', ''1969'', ''1970'', ''1971'', ''1972'', ''1973'', ''1974'', ''1975'', ''1976'', ''1977''],
     [0, 0, 1, 0, 0, 0, 0, 0, 0, 0])"

definition create_series_dict :: "string list \<times> int list" where
  "create_series_dict =
    ([''customs'', ''gran_prix'', ''heavyweights'', ''spoilers'', ''super_chromes'',
      ''snake_mongoose'', ''classics''],
     replicate 7 0)"

section \<open>\<^verbatim>\<open>create_combined_csv_file\<close>\<close>

text \<open>
  The two tables are taken with text cells: the names as text, and the labels, which
  \<^verbatim>\<open>create_csv_files\<close> assigns, are text.
\<close>

definition sorted_set :: "string option list \<Rightarrow> string list" where
  \<comment> \<open>\<^verbatim>\<open>sorted(set(x.dropna()))\<close>\<close>
  "sorted_set x = sort (remdups (concat (map (\<lambda>c. case c of None \<Rightarrow> [] | Some v \<Rightarrow> [v]) x)))"

definition group_keys :: "string \<Rightarrow> string dataframe \<Rightarrow> string list" where
  \<comment> \<open>the groups of \<^verbatim>\<open>groupby\<close>: the distinct values of the key column in ascending
      order, rows with a NaN key left out\<close>
  "group_keys key df =
    sort (remdups (concat (map (\<lambda>r. case row_get (columns df) r key of None \<Rightarrow> [] | Some k \<Rightarrow> [k])
      (rows df))))"

definition group_column :: "string \<Rightarrow> string dataframe \<Rightarrow> string \<Rightarrow> string \<Rightarrow> string option list" where
  \<comment> \<open>the cells of column \<open>c\<close> in the rows of the group \<open>k\<close>\<close>
  "group_column key df k c =
    map (\<lambda>r. row_get (columns df) r c) (filter (\<lambda>r. row_get (columns df) r key = Some k) (rows df))"

definition groupby_agg :: "string \<Rightarrow> string dataframe \<Rightarrow> exn + catalog" where
  \<comment> \<open>lines 156 to 165. When the key column is itself \<^verbatim>\<open>Year\<close> or \<^verbatim>\<open>Series\<close>,
      \<^verbatim>\<open>reset_index\<close> cannot insert the key beside the aggregated column of the same
      label, and pandas raises.\<close>
  "groupby_agg key df =
    (if key = ''Year'' \<or> key = ''Series'' then Inl (ValueError ''cannot insert, already exists'')
     else Inr \<lparr>key_column = key,
               catalog_rows = map (\<lambda>k. (k, sorted_set (group_column key df k ''Year''),
                                            sorted_set (group_column key df k ''Series'')))
                                  (group_keys key df)\<rparr>)"

definition sort_catalog :: "catalog \<Rightarrow> catalog" where
  \<comment> \<open>\<^verbatim>\<open>all_df.sort_values(by=main_column_name, inplace=True)\<close>\<close>
  "sort_catalog c = c\<lparr>catalog_rows := sort_key fst (catalog_rows c)\<rparr>"

definition create_combined_csv_file ::
  "'n env \<Rightarrow> 'n world \<Rightarrow> string \<Rightarrow> string dataframe \<Rightarrow> string dataframe
    \<Rightarrow> (exn + unit) \<times> 'n world" where
  \<comment> \<open>\<open>Inr ()\<close> when the function returns, \<open>Inl e\<close> when it raises \<open>e\<close>\<close>
  "create_combined_csv_file e w main_column_name all_years_df all_series_df =
    (let expected_columns = {main_column_name, ''Year'', ''Series''};
         combined_columns = set (columns all_years_df) \<union> set (columns all_series_df)
     in if \<not> expected_columns \<subseteq> combined_columns
        then (Inr (), log_message w ''Missing expected columns. Skipping CSV and JSON creation.'')
        else
     (case groupby_agg main_column_name (pd_concat [all_years_df, all_series_df]) of
        Inl ex \<Rightarrow> (Inl ex, w)
      | Inr grouped \<Rightarrow>
     (let csv_outfile = OUTPUT_DIR @ ''/redlines.csv'';
          json_outfile = str_replace ''.csv'' ''.json'' csv_outfile
      in case os_makedirs e (dirname csv_outfile) of
           Some ex \<Rightarrow> (Inl ex, w)
         | None \<Rightarrow>
     (let all_df = sort_catalog grouped
      in case file_write e csv_outfile of
           Some ex \<Rightarrow> (Inl ex, w)
         | None \<Rightarrow>
     (let w1 = log_message (write_file w csv_outfile (Catalog_csv all_df))
                 (''CSV saved to '' @ csv_outfile @ ''.'')
      in case file_write e json_outfile of
           Some ex \<Rightarrow> (Inl ex, w1)
         | None \<Rightarrow>
             (Inr (),
              log_message (write_file w1 json_outfile (Catalog_json all_df))
                (''JSON saved to '' @ json_outfile @ ''.'')))))))"

section \<open>The specification's words for the blanked column and for the catalog\<close>

definition without_second_column :: "'v option list list \<Rightarrow> 'v option list list" where
  \<comment> \<open>the grid that selects all columns except the second\<close>
  "without_second_column grid = map (\<lambda>r. take 1 r @ drop 2 r) grid"




section \<open>Concrete inputs\<close>

definition empty_world :: "int world" where
  "empty_world = \<lparr>files = Map.empty, logged = []\<rparr>"

definition page_env :: "int \<Rightarrow> int table_elem option \<Rightarrow> int env" where
  \<comment> \<open>every URL answers with the given status and a page with the given first table;
      the file system accepts everything\<close>
  "page_env status table =
    \<lparr>requests_get = (\<lambda>url. Inr \<lparr>status_code = status, resp_text = ''<html>''\<rparr>),
     soup_find_table = (\<lambda>html. table),
     os_makedirs = (\<lambda>path. None),
     file_write = (\<lambda>path. None)\<rparr>"

definition names_frame :: "int pyval dataframe" where
  "names_frame = \<lparr>columns = [''Name''], rows = [[Some (Str ''Mongoose 2'')], [Some (Str ''Snake'')]]\<rparr>"

definition names_table :: "int table_elem" where
  \<comment> \<open>the table of the scenario for \<^verbatim>\<open>1970.html\<close>\<close>
  "names_table =
    \<lparr>text_nodes = [''Name'', ''Mongoose 2'', ''Snake''], logical_tables = [names_frame]\<rparr>"

definition two_column_frame :: "int pyval dataframe" where
  "two_column_frame =
    \<lparr>columns = [''Car'', ''Driver''],
     rows = [[Some (Str ''Snake 2''), Some (Str ''Don Prudhomme'')],
             [Some (Str ''Mongoose 2''), Some (Str ''Tom McEwen'')]]\<rparr>"

definition two_column_table :: "int table_elem" where
  "two_column_table =
    \<lparr>text_nodes = [''Car'', ''Driver'', ''Snake 2'', ''Don Prudhomme'', ''Mongoose 2'', ''Tom McEwen''],
     logical_tables = [two_column_frame]\<rparr>"

definition empty_table :: "int table_elem" where
  \<comment> \<open>\<^verbatim>\<open><table></table>\<close>\<close>
  "empty_table = \<lparr>text_nodes = [], logical_tables = []\<rparr>"

definition caption_only_table :: "int table_elem" where
  \<comment> \<open>\<^verbatim>\<open><table><caption>Castings</caption></table>\<close>: text, and no row to read\<close>
  "caption_only_table = \<lparr>text_nodes = [''Castings''], logical_tables = []\<rparr>"

definition header_only_table :: "int table_elem" where
  \<comment> \<open>\<^verbatim>\<open><table><tr><th>Name</th></tr></table>\<close>: a header row and no data row\<close>
  "header_only_table =
    \<lparr>text_nodes = [''Name''], logical_tables = [\<lparr>columns = [''Name''], rows = []\<rparr>]\<rparr>"

definition numbers_frame :: "int pyval dataframe" where
  \<comment> \<open>the frame of a column whose cells read \<^verbatim>\<open>10\<close> and \<^verbatim>\<open>9\<close>\<close>
  "numbers_frame = \<lparr>columns = [''Number''], rows = [[Some (Num 10)], [Some (Num 9)]]\<rparr>"

definition mixed_frame :: "int pyval dataframe" where
  \<comment> \<open>a column of names beside a column of numbers\<close>
  "mixed_frame =
    \<lparr>columns = [''Name'', ''Number''],
     rows = [[Some (Str ''Snake''), Some (Num 6401)], [Some (Str ''Mongoose''), Some (Num 6410)]]\<rparr>"

definition denied_env :: "int env" where
  \<comment> \<open>\<^verbatim>\<open>os.makedirs\<close> raises \<^verbatim>\<open>PermissionError\<close>, whatever the page\<close>
  "denied_env = (page_env 200 (Some names_table))\<lparr>os_makedirs := (\<lambda>path. Some (OSError ''Permission denied''))\<rparr>"

definition readonly_env :: "int env" where
  \<comment> \<open>the directories exist and no file can be written\<close>
  "readonly_env = (page_env 200 (Some names_table))\<lparr>file_write := (\<lambda>path. Some (OSError ''Read-only file system''))\<rparr>"

definition offline_env :: "int env" where
  \<comment> \<open>\<^verbatim>\<open>requests.get\<close> times out\<close>
  "offline_env = (page_env 200 None)\<lparr>requests_get := (\<lambda>url. Inl (RequestException ''Request timed out''))\<rparr>"

definition flaky_env :: "int env" where
  \<comment> \<open>the page of 1968 cannot be fetched, every other page holds the table of names\<close>
  "flaky_env = (page_env 200 (Some names_table))
     \<lparr>requests_get := (\<lambda>url. if url = unit_url ''1968'' then Inl (RequestException ''Request timed out'')
                              else Inr \<lparr>status_code = 200, resp_text = ''<html>''\<rparr>)\<rparr>"


definition series_table :: "string dataframe" where
  "series_table =
    \<lparr>columns = [''Casting'', ''Series''], rows = [[Some ''Mongoose'', Some ''classics'']]\<rparr>"

section \<open>The normalizer\<close>

lemma filter_spec_dedupe: "spec_dedupe (filter P xs) = filter P (spec_dedupe xs)"
proof (induction xs arbitrary: P rule: spec_dedupe.induct)
  case 1
  show ?case by simp
next
  case (2 x xs)
  have comm: "filter (\<lambda>y. y \<noteq> x) (filter P xs) = filter P (filter (\<lambda>y. y \<noteq> x) xs)"
    by (simp add: conj_commute)
  show ?case
  proof (cases "P x")
    case True
    have "spec_dedupe (filter P (filter (\<lambda>y. y \<noteq> x) xs)) = filter P (spec_dedupe (filter (\<lambda>y. y \<noteq> x) xs))"
      by (rule 2)
    then have "spec_dedupe (filter (\<lambda>y. y \<noteq> x) (filter P xs)) = filter P (spec_dedupe (filter (\<lambda>y. y \<noteq> x) xs))"
      by (simp only: comm)
    then show ?thesis using True by (simp del: filter_filter)
  next
    case False
    have "filter P (filter (\<lambda>y. y \<noteq> x) xs) = filter P xs"
      using False by (auto intro: filter_cong)
    moreover have "spec_dedupe (filter P (filter (\<lambda>y. y \<noteq> x) xs)) = filter P (spec_dedupe (filter (\<lambda>y. y \<noteq> x) xs))"
      by (rule 2)
    ultimately show ?thesis using False by (simp del: filter_filter)
  qed
qed

lemma drop_duplicates_from_spec:
  "drop_duplicates_from seen xs = spec_dedupe (filter (\<lambda>x. x \<notin> set seen) xs)"
proof (induction xs arbitrary: seen)
  case Nil
  show ?case by simp
next
  case (Cons x xs)
  show ?case
  proof (cases "x \<in> set seen")
    case True
    then show ?thesis using Cons by simp
  next
    case False
    have "filter (\<lambda>y. y \<notin> set (x # seen)) xs = filter (\<lambda>y. y \<noteq> x) (filter (\<lambda>y. y \<notin> set seen) xs)"
      by (auto intro: filter_cong)
    then show ?thesis using False Cons[of "x # seen"] by simp
  qed
qed

lemma drop_duplicates_spec: "drop_duplicates xs = spec_dedupe xs"
  by (simp add: drop_duplicates_def drop_duplicates_from_spec)

lemma stack_spec: "stack df = spec_flatten (rows df)"
  unfolding stack_def spec_flatten_def
  by (induction "rows df") (auto intro!: arg_cong[where f=concat] split: option.splits)

lemma set_spec_dedupe: "set (spec_dedupe xs) = set xs"
  by (induction xs rule: spec_dedupe.induct) auto

lemma distinct_spec_dedupe: "distinct (spec_dedupe xs)"
  by (induction xs rule: spec_dedupe.induct) (auto simp: set_spec_dedupe)

lemma subseq_spec_dedupe: "subseq (spec_dedupe xs) xs"
proof (induction xs rule: spec_dedupe.induct)
  case 1
  show ?case by simp
next
  case (2 x xs)
  have "subseq (filter (\<lambda>y. y \<noteq> x) xs) xs" by simp
  with 2 have "subseq (spec_dedupe (filter (\<lambda>y. y \<noteq> x) xs)) xs"
    using subseq_order.order_trans by blast
  then show ?case by simp
qed

lemma spec_dedupe_distinct: "distinct xs \<Longrightarrow> spec_dedupe xs = xs"
proof (induction xs rule: spec_dedupe.induct)
  case 1
  show ?case by simp
next
  case (2 x xs)
  then have "filter (\<lambda>y. y \<noteq> x) xs = xs" by (auto intro: filter_True)
  with 2 show ?case by simp
qed

lemma spec_synonym_idem: "spec_synonym (spec_synonym v) = spec_synonym v"
  by (simp add: spec_synonym_def)

lemma replace_value_text: "replace_value rename_map (Str s) = Str (spec_synonym s)"
  by (simp add: rename_map_def spec_synonym_def)

lemma spec_dedupe_map_inj:
  assumes "inj f"
  shows "spec_dedupe (map f xs) = map f (spec_dedupe xs)"
proof (induction xs rule: spec_dedupe.induct)
  case 1
  show ?case by simp
next
  case (2 x xs)
  have "filter (\<lambda>y. y \<noteq> f x) (map f xs) = map f (filter (\<lambda>y. y \<noteq> x) xs)"
    using assms by (simp add: filter_map o_def inj_eq)
  with 2 show ?case by simp
qed

lemma inj_Str: "inj Str"
  by (rule injI) simp

lemma inj_Num: "inj Num"
  by (rule injI) simp

lemma texts_map_Str: "texts (map Str ts) = ts"
  by (induction ts) (simp_all add: texts_def)

lemma numbers_map_Num: "numbers (map Num ns) = ns"
  by (induction ns) (simp_all add: numbers_def)

lemma all_text_map_Str: "list_all is_text (map Str ts)"
  by (induction ts) simp_all

lemma all_number_map_Num: "list_all is_number (map Num ns)"
  by (induction ns) simp_all

lemma all_text_eq: "list_all is_text vs \<Longrightarrow> vs = map Str (texts vs)"
proof (induction vs)
  case Nil
  show ?case by (simp add: texts_def)
next
  case (Cons v vs)
  then obtain s where "v = Str s"
    by (cases v) simp_all
  with Cons show ?case
    by (simp add: texts_def)
qed

lemma all_number_eq: "list_all is_number vs \<Longrightarrow> vs = map Num (numbers vs)"
proof (induction vs)
  case Nil
  show ?case by (simp add: numbers_def)
next
  case (Cons v vs)
  then obtain n where "v = Num n"
    by (cases v) simp_all
  with Cons show ?case
    by (simp add: numbers_def)
qed

lemma sort_values_text: "sort_values (map Str ts) = Inr (map Str (sort ts))"
  by (simp add: sort_values_def all_text_map_Str texts_map_Str)

lemma sort_values_number: "sort_values (map Num ns) = Inr (map Num (sort ns))"
proof (cases ns)
  case Nil
  then show ?thesis by (simp add: sort_values_def texts_def)
next
  case (Cons n ns')
  then have "\<not> list_all is_text (map Num ns)"
    by simp
  then show ?thesis
    by (simp add: sort_values_def all_number_map_Num numbers_map_Num)
qed

lemma sort_values_mixed:
  assumes "Str s \<in> set vs" and "Num n \<in> set vs"
  shows "\<exists>m. sort_values vs = Inl (TypeError m)"
proof -
  have "\<not> list_all is_text vs"
    using assms(2) by (metis list_all_iff is_text.simps(2))
  moreover have "\<not> list_all is_number vs"
    using assms(1) by (metis list_all_iff is_number.simps(1))
  ultimately show ?thesis
    by (simp add: sort_values_def)
qed

lemma sort_values_cases:
  assumes "sort_values vs = Inr sorted_vs"
  shows "(\<exists>ts. vs = map Str ts \<and> sorted_vs = map Str (sort ts))
       \<or> (\<exists>ns. vs = map Num ns \<and> sorted_vs = map Num (sort ns))"
proof (cases "list_all is_text vs")
  case True
  then have "vs = map Str (texts vs)"
    by (rule all_text_eq)
  moreover from True assms have "sorted_vs = map Str (sort (texts vs))"
    by (simp add: sort_values_def)
  ultimately show ?thesis by blast
next
  case False
  with assms have n: "list_all is_number vs"
    by (simp add: sort_values_def split: if_splits)
  then have "vs = map Num (numbers vs)"
    by (rule all_number_eq)
  moreover from False n assms have "sorted_vs = map Num (sort (numbers vs))"
    by (simp add: sort_values_def)
  ultimately show ?thesis by blast
qed

lemma replace_text: "replace rename_map (map Str ts) = map Str (map spec_synonym ts)"
  by (simp add: replace_def replace_value_text del: replace_value.simps)

lemma replace_number: "replace rename_map (map Num ns) = map Num ns"
  by (simp add: replace_def)

lemma normalize_values_text:
  "normalize_values (map Str ts) = Inr (map Str (spec_dedupe (map spec_synonym (sort ts))))"
proof -
  have "normalize_values (map Str ts) =
      Inr (drop_duplicates (replace rename_map (map Str (sort ts))))"
    by (simp add: normalize_values_def sort_values_text)
  then show ?thesis
    by (simp only: replace_text drop_duplicates_spec spec_dedupe_map_inj[OF inj_Str])
qed

lemma normalize_values_number:
  "normalize_values (map Num ns) = Inr (map Num (spec_dedupe (sort ns)))"
proof -
  have "normalize_values (map Num ns) =
      Inr (drop_duplicates (replace rename_map (map Num (sort ns))))"
    by (simp add: normalize_values_def sort_values_number)
  then show ?thesis
    by (simp only: replace_number drop_duplicates_spec spec_dedupe_map_inj[OF inj_Num])
qed

lemma normalize_values_mixed:
  assumes "Str s \<in> set vs" and "Num n \<in> set vs"
  shows "\<exists>m. normalize_values vs = Inl (TypeError m)"
proof -
  from sort_values_mixed[OF assms] obtain m where "sort_values vs = Inl (TypeError m)"
    by blast
  then show ?thesis
    by (simp add: normalize_values_def)
qed

lemma row_values_map:
  "concat (map (case_option [] (\<lambda>v. [v]) \<circ> map_option f) r) =
   map f (concat (map (case_option [] (\<lambda>v. [v])) r))"
  by (induction r) (auto split: option.splits)

lemma spec_flatten_map:
  "spec_flatten (map (map (map_option f)) g) = map f (spec_flatten g)"
proof -
  have "stack \<lparr>columns = [], rows = map (map (map_option f)) g\<rparr> =
      map f (stack \<lparr>columns = [], rows = g\<rparr>)"
    by (induction g) (simp_all add: stack_def row_values_map)
  then show ?thesis
    by (simp add: stack_spec)
qed

lemma stack_to_frame: "stack (to_frame name vs) = vs"
  by (induction vs) (simp_all add: stack_def to_frame_def)

lemma renormalize_text:
  assumes "distinct ts" and "map spec_synonym ts = ts"
  shows "normalize_values (map Str ts) = Inr (map Str (sort ts))"
proof -
  have fixed: "spec_synonym t = t" if "t \<in> set ts" for t
    using that assms(2) by (metis map_eq_conv map_ident)
  have "map spec_synonym (sort ts) = sort ts"
    by (rule map_idI) (simp add: fixed)
  then show ?thesis
    using assms(1) by (simp add: normalize_values_text spec_dedupe_distinct)
qed

lemma renormalize_number:
  assumes "distinct ns"
  shows "normalize_values (map Num ns) = Inr (map Num (sort ns))"
  using assms by (simp add: normalize_values_number spec_dedupe_distinct)

lemma normalize_values_output:
  assumes "normalize_values vs = Inr ys"
  shows "(\<exists>ts. ys = map Str ts \<and> distinct ts \<and> map spec_synonym ts = ts)
       \<or> (\<exists>ns. ys = map Num ns \<and> distinct ns)"
proof -
  from assms obtain sorted_vs where s: "sort_values vs = Inr sorted_vs"
    by (cases "sort_values vs") (simp_all add: normalize_values_def)
  from sort_values_cases[OF s] show ?thesis
  proof
    assume "\<exists>ts. vs = map Str ts \<and> sorted_vs = map Str (sort ts)"
    then obtain ts where "vs = map Str ts"
      by blast
    with assms have ys: "ys = map Str (spec_dedupe (map spec_synonym (sort ts)))"
      by (simp add: normalize_values_text)
    have "map spec_synonym (spec_dedupe (map spec_synonym (sort ts))) =
        spec_dedupe (map spec_synonym (sort ts))"
      by (rule map_idI) (auto simp: set_spec_dedupe spec_synonym_idem)
    with ys show ?thesis
      using distinct_spec_dedupe by blast
  next
    assume "\<exists>ns. vs = map Num ns \<and> sorted_vs = map Num (sort ns)"
    then obtain ns where "vs = map Num ns"
      by blast
    with assms have "ys = map Num (spec_dedupe (sort ns))"
      by (simp add: normalize_values_number)
    then show ?thesis
      using distinct_spec_dedupe by blast
  qed
qed

lemma set_normalize_values:
  assumes "normalize_values vs = Inr ys"
  shows "set ys = replace_value rename_map ` set vs"
proof -
  from assms obtain sorted_vs where s: "sort_values vs = Inr sorted_vs"
    and ys: "ys = drop_duplicates (replace rename_map sorted_vs)"
    by (cases "sort_values vs") (auto simp: normalize_values_def)
  from sort_values_cases[OF s] have "set sorted_vs = set vs"
    by auto
  then show ?thesis
    by (simp add: ys drop_duplicates_spec set_spec_dedupe replace_def)
qed

lemma stack_text_grid: "stack \<lparr>columns = cs, rows = text_grid g\<rparr> = map Str (spec_flatten g)"
  by (simp add: stack_spec text_grid_def spec_flatten_map)

lemma stack_number_grid: "stack \<lparr>columns = cs, rows = number_grid h\<rparr> = map Num (spec_flatten h)"
  by (simp add: stack_spec number_grid_def spec_flatten_map)

lemma normalize_values_Nil: "normalize_values [] = Inr []"
  using normalize_values_text[of "[]"] by simp

lemma normalize_frame_text:
  "normalize_frame main \<lparr>columns = cs, rows = text_grid g\<rparr>
     = Inr \<lparr>columns = [main], rows = map (\<lambda>v. [Some (Str v)]) (spec_normalize g)\<rparr>"
  by (simp add: normalize_frame_def stack_text_grid normalize_values_text spec_normalize_def
      to_frame_def o_def)

lemma normalize_frame_stack:
  "stack df = stack df' \<Longrightarrow> normalize_frame main df = normalize_frame main df'"
  by (simp add: normalize_frame_def)

lemma normalize_frame_Inr:
  assumes "normalize_frame main df = Inr out"
  shows "\<exists>ys. normalize_values (stack df) = Inr ys \<and> out = to_frame main ys"
  using assms by (cases "normalize_values (stack df)") (simp_all add: normalize_frame_def)

text \<open>
  C3, as stated: for every extracted grid the normalizer sorts the flattened cell values
  lexicographically. A column whose cells read \<^verbatim>\<open>10\<close> and \<^verbatim>\<open>9\<close> comes out of
  \<^verbatim>\<open>pd.read_html\<close> as the numbers 10 and 9, and \<^verbatim>\<open>sort_values\<close> puts 9 before 10, where
  the lexicographic order of the cell texts puts \<^verbatim>\<open>10\<close> before \<^verbatim>\<open>9\<close>.
\<close>

theorem numeric_cells_counterexample:
  "map (map (map_option cell_text)) (rows numbers_frame) = [[Some ''10''], [Some ''9'']]
   \<and> spec_normalize [[Some ''10''], [Some ''9'']] = [''10'', ''9'']
   \<and> normalize_frame ''Casting'' numbers_frame
       = Inr \<lparr>columns = [''Casting''], rows = [[Some (Num 9)], [Some (Num 10)]]\<rparr>
   \<and> map cell_text [Num 9, Num 10] = [''9'', ''10'']
   \<and> map cell_text [Num 9, Num 10] \<noteq> spec_normalize [[Some ''10''], [Some ''9'']]"
  by code_simp

text \<open>
  C3, amended. For every extracted grid whose cells are all text, the normalizer is the
  normalizer of the specification: the grid flattened row by row, sorted
  lexicographically, rewritten value by value through the ten aliases compared with the
  whole value, then without later duplicates; the result has no duplicates and keeps the
  order of the sorted and rewritten sequence. For a grid whose cells are all numbers it
  flattens, sorts in numeric order, rewrites nothing and removes later duplicates. For a
  grid that holds both a text and a number the sort raises \<^verbatim>\<open>TypeError\<close> and there is
  no result. When the flattened grid is empty the result is the empty frame.
\<close>

theorem normalizer_steps_by_cell_type:
  "normalize_frame main \<lparr>columns = cs, rows = text_grid g\<rparr>
     = Inr \<lparr>columns = [main], rows = map (\<lambda>v. [Some (Str v)]) (spec_normalize g)\<rparr>
   \<and> distinct (spec_normalize g)
   \<and> subseq (spec_normalize g) (map spec_synonym (sort (spec_flatten g)))
   \<and> set (spec_normalize g) = spec_synonym ` set (spec_flatten g)
   \<and> length rename_map = 10
   \<and> normalize_frame main \<lparr>columns = cs, rows = number_grid h\<rparr>
     = Inr \<lparr>columns = [main], rows = map (\<lambda>n. [Some (Num n)]) (spec_dedupe (sort (spec_flatten h)))\<rparr>
   \<and> (Str s \<in> set (stack df) \<and> Num n \<in> set (stack df) \<longrightarrow>
        (\<exists>m. normalize_frame main df = Inl (TypeError m)))
   \<and> (stack df = [] \<longrightarrow> normalize_frame main df = Inr \<lparr>columns = [main], rows = []\<rparr>)"
proof (intro conjI impI)
  show "normalize_frame main \<lparr>columns = cs, rows = text_grid g\<rparr>
     = Inr \<lparr>columns = [main], rows = map (\<lambda>v. [Some (Str v)]) (spec_normalize g)\<rparr>"
    by (simp add: normalize_frame_def stack_text_grid normalize_values_text spec_normalize_def
        to_frame_def o_def)
next
  show "distinct (spec_normalize g)"
    by (simp add: spec_normalize_def distinct_spec_dedupe)
next
  show "subseq (spec_normalize g) (map spec_synonym (sort (spec_flatten g)))"
    by (simp add: spec_normalize_def subseq_spec_dedupe)
next
  show "set (spec_normalize g) = spec_synonym ` set (spec_flatten g)"
    by (simp add: spec_normalize_def set_spec_dedupe)
next
  show "length rename_map = 10"
    by (simp add: rename_map_def)
next
  show "normalize_frame main \<lparr>columns = cs, rows = number_grid h\<rparr>
     = Inr \<lparr>columns = [main], rows = map (\<lambda>n. [Some (Num n)]) (spec_dedupe (sort (spec_flatten h)))\<rparr>"
    by (simp add: normalize_frame_def stack_number_grid normalize_values_number to_frame_def o_def)
next
  assume "Str s \<in> set (stack df) \<and> Num n \<in> set (stack df)"
  then obtain m where "normalize_values (stack df) = Inl (TypeError m)"
    using normalize_values_mixed by blast
  then show "\<exists>m. normalize_frame main df = Inl (TypeError m)"
    by (simp add: normalize_frame_def)
next
  assume "stack df = []"
  then show "normalize_frame main df = Inr \<lparr>columns = [main], rows = []\<rparr>"
    by (simp add: normalize_frame_def normalize_values_Nil to_frame_def)
qed

theorem normalizer_steps_by_cell_type_witness:
  "Str ''Snake'' \<in> set (stack mixed_frame) \<and> Num 6401 \<in> set (stack mixed_frame)
   \<and> (\<exists>m. normalize_frame ''Casting'' mixed_frame = Inl (TypeError m))
   \<and> stack \<lparr>columns = [''Car'', ''Driver''], rows = [[None, None :: int pyval option]]\<rparr> = []
   \<and> normalize_frame ''Casting'' \<lparr>columns = [''Car'', ''Driver''], rows = [[None, None :: int pyval option]]\<rparr>
       = Inr \<lparr>columns = [''Casting''], rows = []\<rparr>
   \<and> normalize_frame ''Casting'' \<lparr>columns = [''Name''], rows = text_grid [[Some ''Snake''], [Some ''Mongoose 2'']]\<rparr>
       = Inr \<lparr>columns = [''Casting''], rows = [[Some (Str ''Mongoose II'')], [Some (Str ''Snake'' :: int pyval)]]\<rparr>"
proof -
  have a: "Str ''Snake'' \<in> set (stack mixed_frame) \<and> Num 6401 \<in> set (stack mixed_frame)"
    by (simp add: mixed_frame_def stack_def)
  have b: "stack \<lparr>columns = [''Car'', ''Driver''], rows = [[None, None :: int pyval option]]\<rparr> = []"
    by (simp add: stack_def)
  have v: "map (\<lambda>v. [Some (Str v :: int pyval)]) (spec_normalize [[Some ''Snake''], [Some ''Mongoose 2'']])
       = [[Some (Str ''Mongoose II'')], [Some (Str ''Snake'')]]"
    by code_simp
  note t = normalizer_steps_by_cell_type[where main = "''Casting''" and df = mixed_frame
      and s = "''Snake''" and n = 6401]
  note u = normalizer_steps_by_cell_type[where main = "''Casting''" and cs = "[''Name'']"
      and g = "[[Some ''Snake''], [Some ''Mongoose 2'']]"
      and df = "\<lparr>columns = [''Car'', ''Driver''], rows = [[None, None :: int pyval option]]\<rparr>"]
  have c: "\<exists>m. normalize_frame ''Casting'' mixed_frame = Inl (TypeError m)"
    using a t by blast
  have d: "normalize_frame ''Casting'' \<lparr>columns = [''Car'', ''Driver''], rows = [[None, None :: int pyval option]]\<rparr>
       = Inr \<lparr>columns = [''Casting''], rows = []\<rparr>"
    using b u by blast
  have e: "normalize_frame ''Casting'' \<lparr>columns = [''Name''], rows = text_grid [[Some ''Snake''], [Some ''Mongoose 2'']]\<rparr>
       = Inr \<lparr>columns = [''Casting''], rows = [[Some (Str ''Mongoose II'')], [Some (Str ''Snake'' :: int pyval)]]\<rparr>"
  proof -
    from u have "normalize_frame ''Casting''
        \<lparr>columns = [''Name''], rows = text_grid [[Some ''Snake''], [Some ''Mongoose 2'']]\<rparr>
       = Inr \<lparr>columns = [''Casting''],
              rows = map (\<lambda>v. [Some (Str v :: int pyval)]) (spec_normalize [[Some ''Snake''], [Some ''Mongoose 2'']])\<rparr>"
      by (rule conjunct1)
    then show ?thesis
      by (simp only: v)
  qed
  show ?thesis
    using a b c d e by blast
qed

text \<open>
  C9, as stated: normalizing the output of the normalizer gives the same sequence. It
  fails where a rewritten name no longer stands in ascending order: \<^verbatim>\<open>Mongoose 2\<close> sorts
  before \<^verbatim>\<open>Mongoose A\<close> and its canonical form \<^verbatim>\<open>Mongoose II\<close> after it.
\<close>

theorem normalizer_reapplied_counterexample:
  "normalize_values [Str ''Mongoose 2'', Str ''Mongoose A'' :: int pyval]
     = Inr [Str ''Mongoose II'', Str ''Mongoose A'']
   \<and> normalize_values [Str ''Mongoose II'', Str ''Mongoose A'' :: int pyval]
     = Inr [Str ''Mongoose A'', Str ''Mongoose II'']
   \<and> normalize_values [Str ''Mongoose II'', Str ''Mongoose A'' :: int pyval]
     \<noteq> Inr [Str ''Mongoose II'', Str ''Mongoose A'']"
  by code_simp

text \<open>
  C9, amended. Normalizing the output of the normalizer gives the same names in
  ascending order: no name is rewritten, none is lost or added, and the sequence is the
  same whenever the output was in ascending order.
\<close>

theorem normalizer_reapplied:
  assumes "normalize_values vs = Inr ys"
  shows
    "normalize_values ys = sort_values ys
     \<and> replace rename_map ys = ys
     \<and> (\<exists>zs. normalize_values ys = Inr zs \<and> set zs = set ys)
     \<and> (\<forall>ts. ys = map Str ts \<longrightarrow> normalize_values ys = Inr (map Str (sort ts)))
     \<and> (\<forall>ts. ys = map Str ts \<and> sorted ts \<longrightarrow> normalize_values ys = Inr ys)
     \<and> (\<forall>ns. ys = map Num ns \<longrightarrow> normalize_values ys = Inr (map Num (sort ns)))
     \<and> (\<forall>ns. ys = map Num ns \<and> sorted ns \<longrightarrow> normalize_values ys = Inr ys)"
proof -
  from normalize_values_output[OF assms] show ?thesis
  proof
    assume "\<exists>ts. ys = map Str ts \<and> distinct ts \<and> map spec_synonym ts = ts"
    then obtain ts where ys: "ys = map Str ts" and d: "distinct ts" and f: "map spec_synonym ts = ts"
      by blast
    note again = renormalize_text[OF d f]
    have 1: "normalize_values ys = sort_values ys"
      by (simp add: ys again sort_values_text)
    have 2: "replace rename_map ys = ys"
      by (simp only: ys replace_text f)
    have 3: "\<exists>zs. normalize_values ys = Inr zs \<and> set zs = set ys"
      by (simp add: ys again)
    have 4: "normalize_values ys = Inr (map Str (sort ts'))" if "ys = map Str ts'" for ts'
    proof -
      from that ys have "ts' = ts"
        by (simp add: inj_map_eq_map[OF inj_Str])
      then show ?thesis
        by (simp add: ys again)
    qed
    have 5: "normalize_values ys = Inr ys" if "ys = map Str ts' \<and> sorted ts'" for ts'
      using 4[of ts'] that by (simp add: sorted_sort_id)
    have ns: "ns = []" if "ys = map Num ns" for ns :: "'a list"
      using that ys by (cases ns; cases ts) simp_all
    have 6: "normalize_values ys = Inr (map Num (sort ns))" if "ys = map Num ns" for ns
      using that ns[OF that] renormalize_number[of "[]"] by simp
    have 7: "normalize_values ys = Inr ys" if "ys = map Num ns \<and> sorted ns" for ns
      using 6[of ns] that by (simp add: sorted_sort_id)
    show ?thesis
      using 1 2 3 4 5 6 7 by blast
  next
    assume "\<exists>ns. ys = map Num ns \<and> distinct ns"
    then obtain ns where ys: "ys = map Num ns" and d: "distinct ns"
      by blast
    note again = renormalize_number[OF d]
    have 1: "normalize_values ys = sort_values ys"
      by (simp add: ys again sort_values_number)
    have 2: "replace rename_map ys = ys"
      by (simp only: ys replace_number)
    have 3: "\<exists>zs. normalize_values ys = Inr zs \<and> set zs = set ys"
      by (simp add: ys again)
    have 6: "normalize_values ys = Inr (map Num (sort ns'))" if "ys = map Num ns'" for ns'
    proof -
      from that ys have "ns' = ns"
        by (simp add: inj_map_eq_map[OF inj_Num])
      then show ?thesis
        by (simp add: ys again)
    qed
    have 7: "normalize_values ys = Inr ys" if "ys = map Num ns' \<and> sorted ns'" for ns'
      using 6[of ns'] that by (simp add: sorted_sort_id)
    have ts: "ts = []" if "ys = map Str ts" for ts
      using that ys by (cases ns; cases ts) simp_all
    have 4: "normalize_values ys = Inr (map Str (sort ts))" if "ys = map Str ts" for ts
      using that ts[OF that] renormalize_text[of "[]"] by simp
    have 5: "normalize_values ys = Inr ys" if "ys = map Str ts \<and> sorted ts" for ts
      using 4[of ts] that by (simp add: sorted_sort_id)
    show ?thesis
      using 1 2 3 4 5 6 7 by blast
  qed
qed

theorem normalizer_reapplied_witness:
  "normalize_values [Str ''Snake 2'', Str ''Mongoose 2'' :: int pyval]
     = Inr (map Str [''Mongoose II'', ''Snake II''])
   \<and> sorted [''Mongoose II'', ''Snake II'']
   \<and> normalize_values (map Str [''Mongoose II'', ''Snake II''] :: int pyval list)
     = Inr (map Str [''Mongoose II'', ''Snake II''])"
proof -
  have v: "normalize_values [Str ''Snake 2'', Str ''Mongoose 2'' :: int pyval]
     = Inr (map Str [''Mongoose II'', ''Snake II''])"
    by code_simp
  have h: "sorted [''Mongoose II'', ''Snake II'']"
    by code_simp
  show ?thesis
    using h v normalizer_reapplied[OF v] by blast
qed

section \<open>\<^verbatim>\<open>scrape_url\<close>: failures\<close>

lemma scrape_try_files:
  "fst (scrape_try e w url i outfile main) = Inl ex \<Longrightarrow>
     files (snd (scrape_try e w url i outfile main)) = files w"
  by (auto simp: scrape_try_def Let_def log_message_def split: sum.splits option.splits if_splits)

lemma handle_exception_files: "files (handle_exception w url ex) = files w"
  by (cases ex) (simp_all add: log_message_def logger_exception_def)

lemma handle_exception_logged: "\<exists>entry. logged (handle_exception w url ex) = logged w @ [entry]"
  by (cases ex) (simp_all add: log_message_def logger_exception_def)

lemma scrape_url_raise:
  "fst (scrape_try e w url i outfile main) = Inl ex \<Longrightarrow>
     scrape_url e w url i outfile main =
       (None, handle_exception (snd (scrape_try e w url i outfile main)) url ex)"
  by (cases "scrape_try e w url i outfile main") (simp add: scrape_url_def)

lemma scrape_url_return:
  "fst (scrape_try e w url i outfile main) = Inr df \<Longrightarrow>
     scrape_url e w url i outfile main = (Some df, snd (scrape_try e w url i outfile main))"
  by (cases "scrape_try e w url i outfile main") (simp add: scrape_url_def)

lemma scrape_try_requests_fail:
  "requests_get e url = Inl ex \<Longrightarrow>
    scrape_try e w url i outfile main = (Inl ex, log_message w (''Fetching URL: '' @ url))"
  by (simp add: scrape_try_def Let_def)

lemma scrape_try_makedirs_fail:
  "os_makedirs e (dirname outfile) = Some ex \<Longrightarrow> \<exists>ex'. fst (scrape_try e w url i outfile main) = Inl ex'"
  by (auto simp: scrape_try_def Let_def split: sum.splits option.splits if_splits)

lemma scrape_try_write_fail:
  "file_write e outfile = Some ex \<Longrightarrow> \<exists>ex'. fst (scrape_try e w url i outfile main) = Inl ex'"
  by (auto simp: scrape_try_def Let_def split: sum.splits option.splits if_splits)

text \<open>
  C5. \<^verbatim>\<open>scrape_url\<close> returns for every input: it is a total function into
  \<open>dataframe option \<times> world\<close>. Whenever the body of its \<^verbatim>\<open>try\<close> raises, whatever the
  exception, it returns \<^verbatim>\<open>None\<close>, adds one entry to the log and leaves the files as
  they were; so it does when \<^verbatim>\<open>requests.get\<close> fails, when \<^verbatim>\<open>os.makedirs\<close> fails and when
  the export cannot be written.
\<close>

theorem scrape_url_never_propagates:
  "(fst (scrape_try e w url i outfile main) = Inl ex \<longrightarrow>
      fst (scrape_url e w url i outfile main) = None
      \<and> files (snd (scrape_url e w url i outfile main)) = files w
      \<and> (\<exists>entry. logged (snd (scrape_url e w url i outfile main)) =
            logged (snd (scrape_try e w url i outfile main)) @ [entry]))
   \<and> (requests_get e url = Inl ex \<longrightarrow> fst (scrape_url e w url i outfile main) = None)
   \<and> (os_makedirs e (dirname outfile) = Some ex \<longrightarrow> fst (scrape_url e w url i outfile main) = None)
   \<and> (file_write e outfile = Some ex \<longrightarrow> fst (scrape_url e w url i outfile main) = None)"
proof (intro conjI impI)
  assume a: "fst (scrape_try e w url i outfile main) = Inl ex"
  show "fst (scrape_url e w url i outfile main) = None"
    by (simp add: scrape_url_raise[OF a])
  show "files (snd (scrape_url e w url i outfile main)) = files w"
    by (simp add: scrape_url_raise[OF a] handle_exception_files scrape_try_files[OF a])
  show "\<exists>entry. logged (snd (scrape_url e w url i outfile main)) =
            logged (snd (scrape_try e w url i outfile main)) @ [entry]"
    by (simp add: scrape_url_raise[OF a] handle_exception_logged)
next
  assume "requests_get e url = Inl ex"
  then show "fst (scrape_url e w url i outfile main) = None"
    by (simp add: scrape_url_raise scrape_try_requests_fail)
next
  assume "os_makedirs e (dirname outfile) = Some ex"
  then obtain ex' where "fst (scrape_try e w url i outfile main) = Inl ex'"
    using scrape_try_makedirs_fail by blast
  then show "fst (scrape_url e w url i outfile main) = None"
    by (simp add: scrape_url_raise)
next
  assume "file_write e outfile = Some ex"
  then obtain ex' where "fst (scrape_try e w url i outfile main) = Inl ex'"
    using scrape_try_write_fail by blast
  then show "fst (scrape_url e w url i outfile main) = None"
    by (simp add: scrape_url_raise)
qed

theorem scrape_url_never_propagates_witness:
  "fst (scrape_try denied_env empty_world ''https://fakeurl.com'' 0 ''/forbidden/test.csv'' ''Casting'')
     = Inl (OSError ''Permission denied'')
   \<and> fst (scrape_url denied_env empty_world ''https://fakeurl.com'' 0 ''/forbidden/test.csv'' ''Casting'') = None
   \<and> files (snd (scrape_url denied_env empty_world ''https://fakeurl.com'' 0 ''/forbidden/test.csv'' ''Casting''))
       = files empty_world
   \<and> requests_get offline_env ''https://slowurl.com'' = Inl (RequestException ''Request timed out'')
   \<and> fst (scrape_url offline_env empty_world ''https://slowurl.com'' 0 ''dummy.csv'' ''Casting'') = None
   \<and> os_makedirs denied_env (dirname ''/forbidden/test.csv'') = Some (OSError ''Permission denied'')
   \<and> file_write readonly_env ''out/test.csv'' = Some (OSError ''Read-only file system'')
   \<and> fst (scrape_url readonly_env empty_world ''https://fakeurl.com'' 0 ''out/test.csv'' ''Casting'') = None"
proof -
  have t: "fst (scrape_try denied_env empty_world ''https://fakeurl.com'' 0 ''/forbidden/test.csv'' ''Casting'')
     = Inl (OSError ''Permission denied'')"
    by code_simp
  have r: "requests_get offline_env ''https://slowurl.com'' = Inl (RequestException ''Request timed out'')"
    by (simp add: offline_env_def page_env_def)
  have m: "os_makedirs denied_env (dirname ''/forbidden/test.csv'') = Some (OSError ''Permission denied'')"
    by (simp add: denied_env_def page_env_def)
  have f: "file_write readonly_env ''out/test.csv'' = Some (OSError ''Read-only file system'')"
    by (simp add: readonly_env_def page_env_def)
  show ?thesis
    using t r m f
      scrape_url_never_propagates[of denied_env empty_world "''https://fakeurl.com''" 0
        "''/forbidden/test.csv''" "''Casting''" "OSError ''Permission denied''"]
      scrape_url_never_propagates[of offline_env empty_world "''https://slowurl.com''" 0
        "''dummy.csv''" "''Casting''" "RequestException ''Request timed out''"]
      scrape_url_never_propagates[of readonly_env empty_world "''https://fakeurl.com''" 0
        "''out/test.csv''" "''Casting''" "OSError ''Read-only file system''"]
    by blast
qed

lemma scrape_try_no_table:
  assumes "requests_get e url = Inr response" "raise_for_status response = Inr ()"
    "soup_find_table e (resp_text response) = None"
  shows "scrape_try e w url i outfile main =
     (Inl (ValueError (''No table found at '' @ url)),
      log_message (log_message w (''Fetching URL: '' @ url)) (''No table found at '' @ url @ ''.''))"
  using assms by (simp add: scrape_try_def Let_def)

lemma scrape_try_read_html_fail:
  assumes "requests_get e url = Inr response" "raise_for_status response = Inr ()"
    "soup_find_table e (resp_text response) = Some table" "read_html table = Inl ex"
  shows "scrape_try e w url i outfile main = (Inl ex, log_message w (''Fetching URL: '' @ url))"
  using assms by (simp add: scrape_try_def Let_def)

lemma scrape_try_getitem_fail:
  assumes "requests_get e url = Inr response" "raise_for_status response = Inr ()"
    "soup_find_table e (resp_text response) = Some table" "read_html table = Inr tables"
    "list_getitem tables i = Inl ex"
  shows "scrape_try e w url i outfile main = (Inl ex, log_message w (''Fetching URL: '' @ url))"
  using assms by (simp add: scrape_try_def Let_def)

lemma scrape_try_blank_fail:
  assumes "requests_get e url = Inr response" "raise_for_status response = Inr ()"
    "soup_find_table e (resp_text response) = Some table" "read_html table = Inr tables"
    "list_getitem tables i = Inr df" "str_contains ''snake_mongoose'' outfile"
    "iloc_set_column_nan df 1 = Inl ex"
  shows "scrape_try e w url i outfile main = (Inl ex, log_message w (''Fetching URL: '' @ url))"
  using assms by (simp add: scrape_try_def Let_def)

lemma scrape_try_status_fail:
  assumes "requests_get e url = Inr response" "raise_for_status response = Inl ex"
  shows "scrape_try e w url i outfile main = (Inl ex, log_message w (''Fetching URL: '' @ url))"
  using assms by (simp add: scrape_try_def Let_def)

lemma list_getitem_Nil: "list_getitem [] i = Inl (IndexError ''list index out of range'')"
  by (simp add: list_getitem_def)

lemma scrape_try_normalize_fail:
  assumes "requests_get e url = Inr response" and "raise_for_status response = Inr ()"
    and "soup_find_table e (resp_text response) = Some table"
    and "read_html table = Inr tables"
    and "list_getitem tables i = Inr df"
    and "\<not> str_contains ''snake_mongoose'' outfile"
    and "normalize_frame main df = Inl ex"
  shows "scrape_try e w url i outfile main = (Inl ex, log_message w (''Fetching URL: '' @ url))"
  using assms by (simp add: scrape_try_def Let_def)

lemma scrape_try_saved:
  assumes "requests_get e url = Inr response" and "raise_for_status response = Inr ()"
    and "soup_find_table e (resp_text response) = Some table"
    and "read_html table = Inr tables"
    and "list_getitem tables i = Inr df"
    and "(if str_contains ''snake_mongoose'' outfile then iloc_set_column_nan df 1 else Inr df) = Inr df1"
    and "normalize_frame main df1 = Inr out"
    and "os_makedirs e (dirname outfile) = None"
    and "file_write e outfile = None"
  shows "scrape_try e w url i outfile main =
    (Inr out, log_message (write_file (log_message w (''Fetching URL: '' @ url)) outfile (Frame_csv out))
       (''Data saved to '' @ outfile @ ''.''))"
  using assms by (simp add: scrape_try_def Let_def)

lemma scrape_url_saved:
  assumes "requests_get e url = Inr response" and "raise_for_status response = Inr ()"
    and "soup_find_table e (resp_text response) = Some table"
    and "read_html table = Inr tables"
    and "list_getitem tables i = Inr df"
    and "(if str_contains ''snake_mongoose'' outfile then iloc_set_column_nan df 1 else Inr df) = Inr df1"
    and "normalize_frame main df1 = Inr out"
    and "os_makedirs e (dirname outfile) = None"
    and "file_write e outfile = None"
  shows "fst (scrape_url e w url i outfile main) = Some out
    \<and> files (snd (scrape_url e w url i outfile main)) outfile = Some (Frame_csv out)"
  by (simp add: scrape_url_def scrape_try_saved[OF assms] log_message_def write_file_def)

lemma scrape_try_status_200:
  assumes "requests_get e url = Inr response" and "raise_for_status response = Inr ()"
  shows "scrape_try e w url i outfile main =
    scrape_try (e\<lparr>requests_get := (requests_get e)(url := Inr (response\<lparr>status_code := 200\<rparr>))\<rparr>)
      w url i outfile main"
proof -
  have "raise_for_status (response\<lparr>status_code := 200\<rparr>) = Inr ()"
    by (simp add: raise_for_status_def)
  with assms show ?thesis
    by (simp add: scrape_try_def Let_def split: option.split sum.split)
qed

text \<open>
  C6, as stated: a page whose table yields no rows makes the extraction fail and
  \<^verbatim>\<open>scrape_url\<close> return \<^verbatim>\<open>None\<close>. A table with a header row and no data row gives
  \<^verbatim>\<open>pd.read_html\<close> a frame with no rows; nothing in \<^verbatim>\<open>scrape_url\<close> looks at the number
  of rows, and it returns the empty frame and writes an export that holds the header only.
\<close>

theorem header_only_table_counterexample:
  "read_html header_only_table = Inr [\<lparr>columns = [''Name''], rows = []\<rparr>]
   \<and> fst (scrape_url (page_env 200 (Some header_only_table)) empty_world (unit_url ''1970'') 0
          (unit_outfile ''1970'') ''Casting'')
       = Some \<lparr>columns = [''Casting''], rows = []\<rparr>
   \<and> files (snd (scrape_url (page_env 200 (Some header_only_table)) empty_world (unit_url ''1970'') 0
          (unit_outfile ''1970'') ''Casting'')) (unit_outfile ''1970'')
       = Some (Frame_csv \<lparr>columns = [''Casting''], rows = []\<rparr>)"
  by code_simp

text \<open>
  C6, amended. When the page has no \<^verbatim>\<open>table\<close> element, and when its first \<^verbatim>\<open>table\<close>
  element holds no text (as \<^verbatim>\<open><table></table>\<close>), the extraction raises a \<^verbatim>\<open>ValueError\<close>,
  \<^verbatim>\<open>scrape_url\<close> logs it and returns \<^verbatim>\<open>None\<close>. When the table holds text and no frame
  can be read from it, taking the frame raises an \<^verbatim>\<open>IndexError\<close>, which is logged as an
  unexpected error, and \<^verbatim>\<open>scrape_url\<close> returns \<^verbatim>\<open>None\<close>. When the frame taken has no
  rows and the files can be written, \<^verbatim>\<open>scrape_url\<close> returns the empty frame and writes
  it.
\<close>

theorem missing_or_textless_table_is_null:
  assumes "requests_get e url = Inr response" and "raise_for_status response = Inr ()"
  shows
    "(soup_find_table e (resp_text response) = None \<longrightarrow>
        fst (scrape_try e w url i outfile main) = Inl (ValueError (''No table found at '' @ url))
        \<and> scrape_url e w url i outfile main =
            (None, w\<lparr>logged := logged w @
               [Info (''Fetching URL: '' @ url), Info (''No table found at '' @ url @ ''.''),
                Info (''ValueError: '' @ ''No table found at '' @ url)]\<rparr>))
     \<and> (\<forall>table. soup_find_table e (resp_text response) = Some table
            \<and> \<not> list_ex text_matches (text_nodes table) \<longrightarrow>
        fst (scrape_try e w url i outfile main) = Inl (ValueError no_tables_found)
        \<and> scrape_url e w url i outfile main =
            (None, w\<lparr>logged := logged w @
               [Info (''Fetching URL: '' @ url), Info (''ValueError: '' @ no_tables_found)]\<rparr>))
     \<and> (\<forall>table. soup_find_table e (resp_text response) = Some table
            \<and> read_html table = Inr [] \<longrightarrow>
        fst (scrape_try e w url i outfile main) = Inl (IndexError ''list index out of range'')
        \<and> scrape_url e w url i outfile main =
            (None, w\<lparr>logged := logged w @
               [Info (''Fetching URL: '' @ url),
                Exception_traceback (''Unexpected error processing '' @ url)]\<rparr>))
     \<and> (\<forall>table tables df. soup_find_table e (resp_text response) = Some table
            \<and> read_html table = Inr tables \<and> list_getitem tables i = Inr df \<and> rows df = []
            \<and> (str_contains ''snake_mongoose'' outfile \<longrightarrow> 2 \<le> length (columns df))
            \<and> os_makedirs e (dirname outfile) = None \<and> file_write e outfile = None \<longrightarrow>
        fst (scrape_url e w url i outfile main) = Some \<lparr>columns = [main], rows = []\<rparr>
        \<and> files (snd (scrape_url e w url i outfile main)) outfile
            = Some (Frame_csv \<lparr>columns = [main], rows = []\<rparr>))"
proof (intro conjI allI impI)
  assume none: "soup_find_table e (resp_text response) = None"
  note t = scrape_try_no_table[OF assms none, of w i outfile main]
  show "fst (scrape_try e w url i outfile main) = Inl (ValueError (''No table found at '' @ url))"
    by (simp add: t)
  show "scrape_url e w url i outfile main =
      (None, w\<lparr>logged := logged w @
         [Info (''Fetching URL: '' @ url), Info (''No table found at '' @ url @ ''.''),
          Info (''ValueError: '' @ ''No table found at '' @ url)]\<rparr>)"
    by (simp add: scrape_url_def t log_message_def)
next
  fix table
  assume a: "soup_find_table e (resp_text response) = Some table
    \<and> \<not> list_ex text_matches (text_nodes table)"
  then have "read_html table = Inl (ValueError no_tables_found)"
    by (simp add: read_html_def)
  note t = scrape_try_read_html_fail[OF assms conjunct1[OF a] this, of w i outfile main]
  show "fst (scrape_try e w url i outfile main) = Inl (ValueError no_tables_found)"
    by (simp add: t)
  show "scrape_url e w url i outfile main =
      (None, w\<lparr>logged := logged w @
         [Info (''Fetching URL: '' @ url), Info (''ValueError: '' @ no_tables_found)]\<rparr>)"
    by (simp add: scrape_url_def t log_message_def)
next
  fix table
  assume a: "soup_find_table e (resp_text response) = Some table \<and> read_html table = Inr []"
  note t = scrape_try_getitem_fail[OF assms conjunct1[OF a] conjunct2[OF a] list_getitem_Nil,
      of w i outfile main]
  show "fst (scrape_try e w url i outfile main) = Inl (IndexError ''list index out of range'')"
    by (simp add: t)
  show "scrape_url e w url i outfile main =
      (None, w\<lparr>logged := logged w @
         [Info (''Fetching URL: '' @ url),
          Exception_traceback (''Unexpected error processing '' @ url)]\<rparr>)"
    by (simp add: scrape_url_def t log_message_def logger_exception_def)
next
  fix table tables df
  assume a: "soup_find_table e (resp_text response) = Some table
      \<and> read_html table = Inr tables \<and> list_getitem tables i = Inr df \<and> rows df = []
      \<and> (str_contains ''snake_mongoose'' outfile \<longrightarrow> 2 \<le> length (columns df))
      \<and> os_makedirs e (dirname outfile) = None \<and> file_write e outfile = None"
  then have blank: "(if str_contains ''snake_mongoose'' outfile then iloc_set_column_nan df 1 else Inr df)
      = Inr df"
    by (auto simp: iloc_set_column_nan_def)
  have "stack df = []"
    using a by (simp add: stack_def)
  then have n: "normalize_frame main df = Inr \<lparr>columns = [main], rows = []\<rparr>"
    by (simp add: normalize_frame_def normalize_values_Nil to_frame_def)
  from a have t: "soup_find_table e (resp_text response) = Some table"
    and r: "read_html table = Inr tables" and g: "list_getitem tables i = Inr df"
    and m: "os_makedirs e (dirname outfile) = None" and f: "file_write e outfile = None"
    by simp_all
  note s = scrape_url_saved[OF assms t r g blank n m f, of w]
  show "fst (scrape_url e w url i outfile main) = Some \<lparr>columns = [main], rows = []\<rparr>"
    using s by (rule conjunct1)
  show "files (snd (scrape_url e w url i outfile main)) outfile
      = Some (Frame_csv \<lparr>columns = [main], rows = []\<rparr>)"
    using s by (rule conjunct2)
qed

theorem missing_or_textless_table_is_null_witness:
  "requests_get (page_env 200 None) ''https://fakeurl.com'' = Inr \<lparr>status_code = 200, resp_text = ''<html>''\<rparr>
   \<and> raise_for_status \<lparr>status_code = 200, resp_text = ''<html>''\<rparr> = Inr ()
   \<and> soup_find_table (page_env 200 None) ''<html>'' = None
   \<and> fst (scrape_url (page_env 200 None) empty_world ''https://fakeurl.com'' 0 ''irrelevant.csv'' ''Casting'') = None
   \<and> soup_find_table (page_env 200 (Some empty_table)) ''<html>'' = Some empty_table
   \<and> \<not> list_ex text_matches (text_nodes empty_table)
   \<and> fst (scrape_try (page_env 200 (Some empty_table)) empty_world ''https://fakeurl.com'' 0 ''dummy.csv'' ''Casting'')
       = Inl (ValueError no_tables_found)
   \<and> fst (scrape_url (page_env 200 (Some empty_table)) empty_world ''https://fakeurl.com'' 0 ''dummy.csv'' ''Casting'')
       = None
   \<and> read_html caption_only_table = Inr []
   \<and> fst (scrape_try (page_env 200 (Some caption_only_table)) empty_world ''https://fakeurl.com'' 0 ''dummy.csv'' ''Casting'')
       = Inl (IndexError ''list index out of range'')
   \<and> fst (scrape_url (page_env 200 (Some caption_only_table)) empty_world ''https://fakeurl.com'' 0 ''dummy.csv'' ''Casting'')
       = None
   \<and> fst (scrape_url (page_env 200 (Some header_only_table)) empty_world ''https://fakeurl.com'' 0 ''out/dummy.csv'' ''Casting'')
       = Some \<lparr>columns = [''Casting''], rows = []\<rparr>"
proof -
  have g1: "requests_get (page_env 200 None) ''https://fakeurl.com'' = Inr \<lparr>status_code = 200, resp_text = ''<html>''\<rparr>"
    by (simp add: page_env_def)
  have g2: "requests_get (page_env 200 (Some t)) ''https://fakeurl.com'' = Inr \<lparr>status_code = 200, resp_text = ''<html>''\<rparr>" for t
    by (simp add: page_env_def)
  have s: "raise_for_status \<lparr>status_code = 200, resp_text = ''<html>''\<rparr> = Inr ()"
    by (simp add: raise_for_status_def)
  have n: "soup_find_table (page_env 200 None) (resp_text \<lparr>status_code = 200, resp_text = ''<html>''\<rparr>) = None"
    by (simp add: page_env_def)
  have t: "soup_find_table (page_env 200 (Some t)) (resp_text \<lparr>status_code = 200, resp_text = ''<html>''\<rparr>) = Some t" for t
    by (simp add: page_env_def)
  have x: "\<not> list_ex text_matches (text_nodes empty_table)"
    by (simp add: empty_table_def)
  have c: "read_html caption_only_table = Inr []"
    by code_simp
  have h: "read_html header_only_table = Inr [\<lparr>columns = [''Name''], rows = []\<rparr>]"
    by code_simp
  have hi: "list_getitem [\<lparr>columns = [''Name''], rows = []\<rparr> :: int pyval dataframe] 0
      = Inr \<lparr>columns = [''Name''], rows = []\<rparr>"
    by (simp add: list_getitem_def)
  have hs: "\<not> str_contains ''snake_mongoose'' ''out/dummy.csv''"
    by code_simp
  have hm: "os_makedirs (page_env 200 (Some header_only_table)) (dirname ''out/dummy.csv'') = None"
    and hf: "file_write (page_env 200 (Some header_only_table)) ''out/dummy.csv'' = None"
    by (simp_all add: page_env_def)
  have a: "fst (scrape_url (page_env 200 None) empty_world ''https://fakeurl.com'' 0 ''irrelevant.csv'' ''Casting'') = None"
    using missing_or_textless_table_is_null[OF g1 s, of empty_world 0 "''irrelevant.csv''" "''Casting''"] n
    by simp
  have b: "fst (scrape_try (page_env 200 (Some empty_table)) empty_world ''https://fakeurl.com'' 0 ''dummy.csv'' ''Casting'')
       = Inl (ValueError no_tables_found)
     \<and> fst (scrape_url (page_env 200 (Some empty_table)) empty_world ''https://fakeurl.com'' 0 ''dummy.csv'' ''Casting'')
       = None"
    using missing_or_textless_table_is_null[OF g2 s, of empty_table empty_world 0 "''dummy.csv''" "''Casting''"]
      t[of empty_table] x
    by simp
  have d: "fst (scrape_try (page_env 200 (Some caption_only_table)) empty_world ''https://fakeurl.com'' 0 ''dummy.csv'' ''Casting'')
       = Inl (IndexError ''list index out of range'')
     \<and> fst (scrape_url (page_env 200 (Some caption_only_table)) empty_world ''https://fakeurl.com'' 0 ''dummy.csv'' ''Casting'')
       = None"
    using missing_or_textless_table_is_null[OF g2 s, of caption_only_table empty_world 0 "''dummy.csv''" "''Casting''"]
      t[of caption_only_table] c
    by simp
  have e: "fst (scrape_url (page_env 200 (Some header_only_table)) empty_world ''https://fakeurl.com'' 0 ''out/dummy.csv'' ''Casting'')
       = Some \<lparr>columns = [''Casting''], rows = []\<rparr>"
    using missing_or_textless_table_is_null[OF g2 s, of header_only_table empty_world 0 "''out/dummy.csv''" "''Casting''"]
      t[of header_only_table] h hi hs hm hf
    by simp
  show ?thesis
    using g1 s n t[of empty_table] x a b c d e by simp
qed

text \<open>
  C8, as stated: every response whose status is not 2xx makes \<^verbatim>\<open>scrape_url\<close> return
  \<^verbatim>\<open>None\<close>. A response with status 300 and a page with a table is scraped like any other.
\<close>

theorem non_2xx_status_counterexample:
  "requests_get (page_env 300 (Some names_table)) (unit_url ''1970'')
     = Inr \<lparr>status_code = 300, resp_text = ''<html>''\<rparr>
   \<and> raise_for_status \<lparr>status_code = 300, resp_text = ''<html>''\<rparr> = Inr ()
   \<and> fst (scrape_url (page_env 300 (Some names_table)) empty_world (unit_url ''1970'') 0
           (unit_outfile ''1970'') ''Casting'')
       = Some \<lparr>columns = [''Casting''], rows = [[Some (Str ''Mongoose II'')], [Some (Str ''Snake'')]]\<rparr>"
  by code_simp

text \<open>
  C8, amended. For every response whose status is a client error or a server error (400
  to 599), \<^verbatim>\<open>raise_for_status\<close> raises a \<^verbatim>\<open>RequestException\<close>, \<^verbatim>\<open>scrape_url\<close> logs the
  failure and returns \<^verbatim>\<open>None\<close>. For a response with any other status nothing is raised
  and the body is parsed: \<^verbatim>\<open>scrape_url\<close> does what it does for the same response with
  status 200, and when the body holds a table that normalizes to a frame and the files can
  be written, it returns that frame and writes it.
\<close>

theorem status_decides_the_fetch:
  assumes "requests_get e url = Inr response"
  shows
    "(400 \<le> status_code response \<and> status_code response < 600 \<longrightarrow>
       (\<exists>m. fst (scrape_try e w url i outfile main) = Inl (RequestException m)
          \<and> scrape_url e w url i outfile main =
              (None, w\<lparr>logged := logged w @
                 [Info (''Fetching URL: '' @ url),
                  Info (''Error fetching the URL '' @ url @ '': '' @ m)]\<rparr>)))
     \<and> (\<not> (400 \<le> status_code response \<and> status_code response < 600) \<longrightarrow>
          raise_for_status response = Inr ()
          \<and> scrape_url e w url i outfile main =
              scrape_url (e\<lparr>requests_get := (requests_get e)(url := Inr (response\<lparr>status_code := 200\<rparr>))\<rparr>)
                w url i outfile main
          \<and> (\<forall>table tables df df1 out. soup_find_table e (resp_text response) = Some table
                \<and> read_html table = Inr tables \<and> list_getitem tables i = Inr df
                \<and> (if str_contains ''snake_mongoose'' outfile then iloc_set_column_nan df 1 else Inr df)
                    = Inr df1
                \<and> normalize_frame main df1 = Inr out
                \<and> os_makedirs e (dirname outfile) = None \<and> file_write e outfile = None \<longrightarrow>
              fst (scrape_url e w url i outfile main) = Some out
              \<and> files (snd (scrape_url e w url i outfile main)) outfile = Some (Frame_csv out)))"
proof (intro conjI impI allI)
  assume "400 \<le> status_code response \<and> status_code response < 600"
  then have "\<exists>m. raise_for_status response = Inl (RequestException m)"
    by (cases "status_code response < 500") (simp_all add: raise_for_status_def)
  then obtain m where m: "raise_for_status response = Inl (RequestException m)"
    by blast
  note t = scrape_try_status_fail[OF assms m, of w i outfile main]
  have "fst (scrape_try e w url i outfile main) = Inl (RequestException m)"
    by (simp add: t)
  moreover have "scrape_url e w url i outfile main =
      (None, w\<lparr>logged := logged w @
         [Info (''Fetching URL: '' @ url), Info (''Error fetching the URL '' @ url @ '': '' @ m)]\<rparr>)"
    by (simp add: scrape_url_def t log_message_def)
  ultimately show "\<exists>m. fst (scrape_try e w url i outfile main) = Inl (RequestException m)
      \<and> scrape_url e w url i outfile main =
          (None, w\<lparr>logged := logged w @
             [Info (''Fetching URL: '' @ url),
              Info (''Error fetching the URL '' @ url @ '': '' @ m)]\<rparr>)"
    by blast
next
  assume "\<not> (400 \<le> status_code response \<and> status_code response < 600)"
  then show "raise_for_status response = Inr ()"
    by (auto simp: raise_for_status_def)
next
  assume "\<not> (400 \<le> status_code response \<and> status_code response < 600)"
  then have ok: "raise_for_status response = Inr ()"
    by (auto simp: raise_for_status_def)
  show "scrape_url e w url i outfile main =
      scrape_url (e\<lparr>requests_get := (requests_get e)(url := Inr (response\<lparr>status_code := 200\<rparr>))\<rparr>)
        w url i outfile main"
    by (simp only: scrape_url_def scrape_try_status_200[OF assms ok, of w i outfile main])
next
  fix table tables df df1 out
  assume "\<not> (400 \<le> status_code response \<and> status_code response < 600)"
  then have ok: "raise_for_status response = Inr ()"
    by (auto simp: raise_for_status_def)
  assume a: "soup_find_table e (resp_text response) = Some table
      \<and> read_html table = Inr tables \<and> list_getitem tables i = Inr df
      \<and> (if str_contains ''snake_mongoose'' outfile then iloc_set_column_nan df 1 else Inr df)
          = Inr df1
      \<and> normalize_frame main df1 = Inr out
      \<and> os_makedirs e (dirname outfile) = None \<and> file_write e outfile = None"
  then have t: "soup_find_table e (resp_text response) = Some table"
    and r: "read_html table = Inr tables" and g: "list_getitem tables i = Inr df"
    and blank: "(if str_contains ''snake_mongoose'' outfile then iloc_set_column_nan df 1 else Inr df)
      = Inr df1"
    and n: "normalize_frame main df1 = Inr out"
    and m: "os_makedirs e (dirname outfile) = None" and f: "file_write e outfile = None"
    by blast+
  note s = scrape_url_saved[OF assms ok t r g blank n m f, of w]
  show "fst (scrape_url e w url i outfile main) = Some out"
    using s by (rule conjunct1)
  show "files (snd (scrape_url e w url i outfile main)) outfile = Some (Frame_csv out)"
    using s by (rule conjunct2)
qed

theorem status_decides_the_fetch_witness:
  "requests_get (page_env 404 (Some names_table)) (unit_url ''1970'')
     = Inr \<lparr>status_code = 404, resp_text = ''<html>''\<rparr>
   \<and> fst (scrape_url (page_env 404 (Some names_table)) empty_world (unit_url ''1970'') 0
           (unit_outfile ''1970'') ''Casting'') = None
   \<and> requests_get (page_env 300 (Some names_table)) (unit_url ''1970'')
     = Inr \<lparr>status_code = 300, resp_text = ''<html>''\<rparr>
   \<and> normalize_frame ''Casting'' names_frame
     = Inr \<lparr>columns = [''Casting''], rows = [[Some (Str ''Mongoose II'')], [Some (Str ''Snake'')]]\<rparr>
   \<and> fst (scrape_url (page_env 300 (Some names_table)) empty_world (unit_url ''1970'') 0
           (unit_outfile ''1970'') ''Casting'')
     = Some \<lparr>columns = [''Casting''], rows = [[Some (Str ''Mongoose II'')], [Some (Str ''Snake'')]]\<rparr>
   \<and> files (snd (scrape_url (page_env 300 (Some names_table)) empty_world (unit_url ''1970'') 0
           (unit_outfile ''1970'') ''Casting'')) (unit_outfile ''1970'')
     = Some (Frame_csv \<lparr>columns = [''Casting''], rows = [[Some (Str ''Mongoose II'')], [Some (Str ''Snake'')]]\<rparr>)"
proof -
  let ?out = "\<lparr>columns = [''Casting''], rows = [[Some (Str ''Mongoose II'')], [Some (Str ''Snake'' :: int pyval)]]\<rparr>"
  have g: "requests_get (page_env 404 (Some names_table)) (unit_url ''1970'')
     = Inr \<lparr>status_code = 404, resp_text = ''<html>''\<rparr>"
    by (simp add: page_env_def)
  have g3: "requests_get (page_env 300 (Some names_table)) (unit_url ''1970'')
     = Inr \<lparr>status_code = 300, resp_text = ''<html>''\<rparr>"
    by (simp add: page_env_def)
  have a: "fst (scrape_url (page_env 404 (Some names_table)) empty_world (unit_url ''1970'') 0
           (unit_outfile ''1970'') ''Casting'') = None"
    using status_decides_the_fetch[OF g, of empty_world 0 "unit_outfile ''1970''" "''Casting''"]
    by auto
  have t: "soup_find_table (page_env 300 (Some names_table))
      (resp_text \<lparr>status_code = 300, resp_text = ''<html>''\<rparr>) = Some names_table"
    by (simp add: page_env_def)
  have r: "read_html names_table = Inr [names_frame]"
    by code_simp
  have i: "list_getitem [names_frame] 0 = Inr names_frame"
    by (simp add: list_getitem_def)
  have c: "(if str_contains ''snake_mongoose'' (unit_outfile ''1970'')
            then iloc_set_column_nan names_frame 1 else Inr names_frame) = Inr names_frame"
    by code_simp
  have n: "normalize_frame ''Casting'' names_frame = Inr ?out"
    by code_simp
  have m: "os_makedirs (page_env 300 (Some names_table)) (dirname (unit_outfile ''1970'')) = None"
    and f: "file_write (page_env 300 (Some names_table)) (unit_outfile ''1970'') = None"
    by (simp_all add: page_env_def)
  have s: "\<not> (400 \<le> status_code \<lparr>status_code = 300, resp_text = ''<html>''\<rparr>
      \<and> status_code \<lparr>status_code = 300, resp_text = ''<html>''\<rparr> < 600)"
    by simp
  have b: "fst (scrape_url (page_env 300 (Some names_table)) empty_world (unit_url ''1970'') 0
           (unit_outfile ''1970'') ''Casting'') = Some ?out
     \<and> files (snd (scrape_url (page_env 300 (Some names_table)) empty_world (unit_url ''1970'') 0
           (unit_outfile ''1970'') ''Casting'')) (unit_outfile ''1970'') = Some (Frame_csv ?out)"
    using status_decides_the_fetch[OF g3, of empty_world 0 "unit_outfile ''1970''" "''Casting''"]
      s t r i c n m f
    by blast
  show ?thesis
    using g g3 a n b by blast
qed

text \<open>
  C10. When the output path holds \<^verbatim>\<open>snake_mongoose\<close> and the parsed table has fewer
  than two columns, blanking the second column raises an \<^verbatim>\<open>IndexError\<close>; it is caught
  by the last \<^verbatim>\<open>except\<close> clause as an unexpected error, and \<^verbatim>\<open>scrape_url\<close> returns
  \<^verbatim>\<open>None\<close> with no file written.
\<close>

theorem snake_mongoose_one_column_is_null:
  assumes "requests_get e url = Inr response" and "raise_for_status response = Inr ()"
    and "soup_find_table e (resp_text response) = Some table"
    and "read_html table = Inr tables"
    and "list_getitem tables i = Inr df"
    and "str_contains ''snake_mongoose'' outfile"
    and "length (columns df) < 2"
  shows
    "fst (scrape_try e w url i outfile main) = Inl (IndexError ''iloc cannot enlarge its target object'')
     \<and> scrape_url e w url i outfile main =
         (None, w\<lparr>logged := logged w @
            [Info (''Fetching URL: '' @ url),
             Exception_traceback (''Unexpected error processing '' @ url)]\<rparr>)
     \<and> files (snd (scrape_url e w url i outfile main)) = files w"
proof -
  have "iloc_set_column_nan df 1 = Inl (IndexError ''iloc cannot enlarge its target object'')"
    using assms(7) by (simp add: iloc_set_column_nan_def)
  note t = scrape_try_blank_fail[OF assms(1-6) this, of w main]
  show ?thesis
    by (simp add: scrape_url_def t log_message_def logger_exception_def)
qed

theorem snake_mongoose_one_column_is_null_witness:
  "str_contains ''snake_mongoose'' (unit_outfile ''snake_mongoose'')
   \<and> length (columns names_frame) < 2
   \<and> scrape_url (page_env 200 (Some names_table)) empty_world (unit_url ''snake_mongoose'') 0
       (unit_outfile ''snake_mongoose'') ''Casting''
     = (None, empty_world\<lparr>logged := logged empty_world @
          [Info (''Fetching URL: '' @ unit_url ''snake_mongoose''),
           Exception_traceback (''Unexpected error processing '' @ unit_url ''snake_mongoose'')]\<rparr>)"
proof -
  have g: "requests_get (page_env 200 (Some names_table)) (unit_url ''snake_mongoose'')
     = Inr \<lparr>status_code = 200, resp_text = ''<html>''\<rparr>"
    by (simp add: page_env_def)
  have s: "raise_for_status \<lparr>status_code = 200, resp_text = ''<html>''\<rparr> = Inr ()"
    by (simp add: raise_for_status_def)
  have t: "soup_find_table (page_env 200 (Some names_table)) (resp_text \<lparr>status_code = 200, resp_text = ''<html>''\<rparr>)
     = Some names_table"
    by (simp add: page_env_def)
  have r: "read_html names_table = Inr [names_frame]"
    by code_simp
  have i: "list_getitem [names_frame] 0 = Inr names_frame"
    by (simp add: list_getitem_def)
  have c: "str_contains ''snake_mongoose'' (unit_outfile ''snake_mongoose'')"
    by code_simp
  have l: "length (columns names_frame) < 2"
    by (simp add: names_frame_def)
  show ?thesis
    using c l snake_mongoose_one_column_is_null[OF g s t r i c l, of empty_world "''Casting''"]
    by blast
qed

section \<open>\<^verbatim>\<open>scrape_url\<close>: the blanked column\<close>

lemma snake_mongoose_outfile: "str_contains ''snake_mongoose'' (unit_outfile ''snake_mongoose'')"
  by code_simp

lemma blank_second_cell:
  "concat (map (case_option [] (\<lambda>v. [v])) (r[Suc 0 := None])) =
   concat (map (case_option [] (\<lambda>v. [v])) (take (Suc 0) r)) @
   concat (map (case_option [] (\<lambda>v. [v])) (drop 2 r))"
proof (cases r)
  case Nil
  then show ?thesis by simp
next
  case (Cons a r')
  then show ?thesis by (cases r') simp_all
qed

lemma stack_blanked:
  assumes "iloc_set_column_nan df 1 = Inr df1"
  shows "stack df1 = spec_flatten (without_second_column (rows df))"
proof -
  have df1: "df1 = df\<lparr>rows := map (\<lambda>r. r[1 := None]) (rows df)\<rparr>"
    using assms by (simp add: iloc_set_column_nan_def split: if_splits)
  have "stack df1 = stack \<lparr>columns = columns df, rows = without_second_column (rows df)\<rparr>"
    by (simp add: df1 stack_def without_second_column_def o_def blank_second_cell)
  then show ?thesis
    by (simp add: stack_spec)
qed

lemma scrape_try_snake_mongoose:
  assumes "requests_get e url = Inr response" and "raise_for_status response = Inr ()"
    and "soup_find_table e (resp_text response) = Some table"
    and "read_html table = Inr tables"
    and "list_getitem tables i = Inr df"
    and "str_contains ''snake_mongoose'' outfile"
    and "scrape_try e w url i outfile main = (Inr out, w')"
  shows "normalize_frame main \<lparr>columns = columns df, rows = without_second_column (rows df)\<rparr> = Inr out
    \<and> files w' outfile = Some (Frame_csv out)"
proof -
  obtain df1 where b: "iloc_set_column_nan df 1 = Inr df1"
    using assms by (cases "iloc_set_column_nan df 1") (simp_all add: scrape_try_def Let_def)
  obtain df2 where n: "normalize_frame main df1 = Inr df2"
    using assms b by (cases "normalize_frame main df1") (simp_all add: scrape_try_def Let_def)
  have out: "out = df2"
    and w': "w' = log_message (write_file (log_message w (''Fetching URL: '' @ url)) outfile
                    (Frame_csv df2)) (''Data saved to '' @ outfile @ ''.'')"
    using assms b n by (auto simp: scrape_try_def Let_def split: option.splits)
  have "stack df1 = stack \<lparr>columns = columns df, rows = without_second_column (rows df)\<rparr>"
    unfolding stack_blanked[OF b] by (simp add: stack_spec)
  from normalize_frame_stack[OF this, of main] n
  have "normalize_frame main \<lparr>columns = columns df, rows = without_second_column (rows df)\<rparr> = Inr df2"
    by simp
  then show ?thesis
    by (simp add: out w' log_message_def write_file_def)
qed

lemma cell_outside_second_column:
  assumes "Some x \<in> set (take 1 r @ drop 2 r)"
  shows "\<exists>j<length r. j \<noteq> 1 \<and> r ! j = Some x"
proof -
  from assms consider "Some x \<in> set (take 1 r)" | "Some x \<in> set (drop 2 r)"
    by auto
  then show ?thesis
  proof cases
    case 1
    then obtain r' where "r = Some x # r'"
      by (cases r) simp_all
    then have "0 < length r \<and> (0::nat) \<noteq> 1 \<and> r ! 0 = Some x"
      by simp
    then show ?thesis by blast
  next
    case 2
    then obtain k where k: "k < length (drop 2 r)" and x: "drop 2 r ! k = Some x"
      unfolding in_set_conv_nth by blast
    from k have "2 + k < length r"
      by simp
    moreover from k x have "r ! (2 + k) = Some x"
      by simp
    moreover have "2 + k \<noteq> 1"
      by simp
    ultimately show ?thesis by blast
  qed
qed

lemma set_row_values:
  "x \<in> set (concat (map (\<lambda>c. case c of None \<Rightarrow> [] | Some v \<Rightarrow> [v]) r)) \<longleftrightarrow> Some x \<in> set r"
  by (induction r) (auto split: option.splits)

lemma set_spec_flatten: "x \<in> set (spec_flatten grid) \<longleftrightarrow> (\<exists>r\<in>set grid. Some x \<in> set r)"
proof -
  have "spec_flatten grid = stack \<lparr>columns = [], rows = grid\<rparr>"
    by (simp add: stack_spec)
  then show ?thesis
    by (simp add: stack_def set_row_values)
qed

lemma flatten_without_second_column:
  assumes "x \<in> set (spec_flatten (without_second_column grid))"
  shows "\<exists>r\<in>set grid. \<exists>j<length r. j \<noteq> 1 \<and> r ! j = Some x"
proof -
  from assms obtain r' where r': "r' \<in> set (without_second_column grid)" and x: "Some x \<in> set r'"
    unfolding set_spec_flatten by (rule bexE)
  from r' have "r' \<in> (\<lambda>r. take 1 r @ drop 2 r) ` set grid"
    unfolding without_second_column_def set_map .
  then obtain r where r: "r \<in> set grid" and eq: "r' = take 1 r @ drop 2 r"
    by (rule imageE)
  from x have "Some x \<in> set (take 1 r @ drop 2 r)"
    unfolding eq .
  then have "\<exists>j<length r. j \<noteq> 1 \<and> r ! j = Some x"
    by (rule cell_outside_second_column)
  with r show ?thesis
    by (rule rev_bexI)
qed

text \<open>
  C4. For the unit of the dataset key \<^verbatim>\<open>snake_mongoose\<close>, whatever the extracted grid
  holds in its second column, the result of \<^verbatim>\<open>scrape_url\<close> and the export it writes are
  the normalization of the grid without its second column: every value in them is the
  canonical form of a cell that stands outside the second column, and when the cells
  outside the second column are text they are the normalization of the specification.
\<close>

theorem snake_mongoose_second_column_discarded:
  assumes "requests_get e url = Inr response" and "raise_for_status response = Inr ()"
    and "soup_find_table e (resp_text response) = Some table"
    and "read_html table = Inr tables"
    and "list_getitem tables i = Inr df"
    and "scrape_url e w url i (unit_outfile ''snake_mongoose'') main = (Some out, w')"
  shows
    "normalize_frame main \<lparr>columns = columns df, rows = without_second_column (rows df)\<rparr> = Inr out
     \<and> (\<forall>g. without_second_column (rows df) = text_grid g \<longrightarrow>
          out = \<lparr>columns = [main], rows = map (\<lambda>v. [Some (Str v)]) (spec_normalize g)\<rparr>)
     \<and> files w' (unit_outfile ''snake_mongoose'') = Some (Frame_csv out)
     \<and> (\<forall>v\<in>set (stack out). \<exists>r\<in>set (rows df). \<exists>j<length r.
           j \<noteq> 1 \<and> (\<exists>x. r ! j = Some x \<and> v = replace_value rename_map x
             \<and> (\<forall>s. x = Str s \<longrightarrow> v = Str (spec_synonym s))
             \<and> (\<forall>n. x = Num n \<longrightarrow> v = Num n)))"
proof -
  have "scrape_try e w url i (unit_outfile ''snake_mongoose'') main = (Inr out, w')"
    using assms(6)
    by (cases "scrape_try e w url i (unit_outfile ''snake_mongoose'') main")
      (auto simp: scrape_url_def split: sum.splits)
  note r = scrape_try_snake_mongoose[OF assms(1-5) snake_mongoose_outfile this]
  note n = conjunct1[OF r]
  have tcase: "out = \<lparr>columns = [main], rows = map (\<lambda>v. [Some (Str v)]) (spec_normalize g)\<rparr>"
    if "without_second_column (rows df) = text_grid g" for g
    using n by (simp add: that normalize_frame_text)
  from normalize_frame_Inr[OF n] obtain ys where
    ys: "normalize_values (stack \<lparr>columns = columns df, rows = without_second_column (rows df)\<rparr>) = Inr ys"
    and out: "out = to_frame main ys"
    by blast
  have flat: "stack \<lparr>columns = columns df, rows = without_second_column (rows df)\<rparr> =
      spec_flatten (without_second_column (rows df))"
    by (simp add: stack_spec)
  have "\<exists>r\<in>set (rows df). \<exists>j<length r. j \<noteq> 1 \<and> (\<exists>x. r ! j = Some x \<and> v = replace_value rename_map x
      \<and> (\<forall>s. x = Str s \<longrightarrow> v = Str (spec_synonym s)) \<and> (\<forall>n. x = Num n \<longrightarrow> v = Num n))"
    if "v \<in> set (stack out)" for v
  proof -
    from that have "v \<in> set ys"
      by (simp add: out stack_to_frame)
    then have "v \<in> replace_value rename_map ` set (spec_flatten (without_second_column (rows df)))"
      using set_normalize_values[OF ys] by (simp only: flat)
    then obtain x where x: "x \<in> set (spec_flatten (without_second_column (rows df)))"
      and v: "v = replace_value rename_map x"
      by (rule imageE)
    from flatten_without_second_column[OF x]
    obtain r j where "r \<in> set (rows df)" and "j < length r" and "j \<noteq> 1" and "r ! j = Some x"
      by (elim bexE exE conjE)
    moreover have "\<forall>s. x = Str s \<longrightarrow> v = Str (spec_synonym s)"
      by (simp add: v replace_value_text del: replace_value.simps)
    moreover have "\<forall>n. x = Num n \<longrightarrow> v = Num n"
      by (simp add: v)
    ultimately show ?thesis
      using v by (intro bexI[of _ r] exI[of _ j] exI[of _ x] conjI)
  qed
  then have cells: "\<forall>v\<in>set (stack out). \<exists>r\<in>set (rows df). \<exists>j<length r.
      j \<noteq> 1 \<and> (\<exists>x. r ! j = Some x \<and> v = replace_value rename_map x
        \<and> (\<forall>s. x = Str s \<longrightarrow> v = Str (spec_synonym s)) \<and> (\<forall>n. x = Num n \<longrightarrow> v = Num n))"
    by (rule ballI)
  have tall: "\<forall>g. without_second_column (rows df) = text_grid g \<longrightarrow>
      out = \<lparr>columns = [main], rows = map (\<lambda>v. [Some (Str v)]) (spec_normalize g)\<rparr>"
    using tcase by (intro allI impI)
  show ?thesis
    using n tall conjunct2[OF r] cells by (intro conjI)
qed

theorem snake_mongoose_second_column_discarded_witness:
  "scrape_url (page_env 200 (Some two_column_table)) empty_world (unit_url ''snake_mongoose'') 0
      (unit_outfile ''snake_mongoose'') ''Casting''
    = (Some \<lparr>columns = [''Casting''], rows = [[Some (Str ''Mongoose II'')], [Some (Str ''Snake II'')]]\<rparr>,
       snd (scrape_url (page_env 200 (Some two_column_table)) empty_world (unit_url ''snake_mongoose'') 0
         (unit_outfile ''snake_mongoose'') ''Casting''))
   \<and> without_second_column (rows two_column_frame)
      = (text_grid [[Some ''Snake 2''], [Some ''Mongoose 2'']] :: int pyval option list list)
   \<and> spec_normalize [[Some ''Snake 2''], [Some ''Mongoose 2'']] = [''Mongoose II'', ''Snake II'']
   \<and> files (snd (scrape_url (page_env 200 (Some two_column_table)) empty_world
        (unit_url ''snake_mongoose'') 0 (unit_outfile ''snake_mongoose'') ''Casting''))
        (unit_outfile ''snake_mongoose'')
      = Some (Frame_csv \<lparr>columns = [''Casting''], rows = [[Some (Str ''Mongoose II'')], [Some (Str ''Snake II'')]]\<rparr>)"
proof -
  let ?out = "\<lparr>columns = [''Casting''], rows = [[Some (Str ''Mongoose II'')], [Some (Str ''Snake II'' :: int pyval)]]\<rparr>"
  let ?run = "scrape_url (page_env 200 (Some two_column_table)) empty_world (unit_url ''snake_mongoose'') 0
      (unit_outfile ''snake_mongoose'') ''Casting''"
  have g: "requests_get (page_env 200 (Some two_column_table)) (unit_url ''snake_mongoose'')
     = Inr \<lparr>status_code = 200, resp_text = ''<html>''\<rparr>"
    by (simp add: page_env_def)
  have s: "raise_for_status \<lparr>status_code = 200, resp_text = ''<html>''\<rparr> = Inr ()"
    by (simp add: raise_for_status_def)
  have t: "soup_find_table (page_env 200 (Some two_column_table))
      (resp_text \<lparr>status_code = 200, resp_text = ''<html>''\<rparr>) = Some two_column_table"
    by (simp add: page_env_def)
  have r: "read_html two_column_table = Inr [two_column_frame]"
    by code_simp
  have i: "list_getitem [two_column_frame] 0 = Inr two_column_frame"
    by (simp add: list_getitem_def)
  have f: "fst ?run = Some ?out"
    by code_simp
  have u: "?run = (Some ?out, snd ?run)"
    by (rule prod_eqI) (simp_all only: f fst_conv snd_conv)
  have tg: "without_second_column (rows two_column_frame)
      = (text_grid [[Some ''Snake 2''], [Some ''Mongoose 2'']] :: int pyval option list list)"
    by code_simp
  have sn: "spec_normalize [[Some ''Snake 2''], [Some ''Mongoose 2'']] = [''Mongoose II'', ''Snake II'']"
    by code_simp
  show ?thesis
    using u tg sn snake_mongoose_second_column_discarded[OF g s t r i u] by blast
qed

section \<open>\<^verbatim>\<open>create_combined_csv_file\<close>\<close>

















text \<open>
  C2. When the columns of the two tables together do not hold the name column, \<^verbatim>\<open>Year\<close>
  and \<^verbatim>\<open>Series\<close>, \<^verbatim>\<open>create_combined_csv_file\<close> logs the mismatch and returns; it writes no
  file.
\<close>

theorem column_mismatch_writes_nothing:
  assumes "\<not> {main, ''Year'', ''Series''} \<subseteq> set (columns y) \<union> set (columns s)"
  shows
    "create_combined_csv_file e w main y s =
       (Inr (), w\<lparr>logged := logged w @
          [Info ''Missing expected columns. Skipping CSV and JSON creation.'']\<rparr>)
     \<and> files (snd (create_combined_csv_file e w main y s)) = files w"
  using assms by (simp add: create_combined_csv_file_def Let_def log_message_def)

theorem column_mismatch_writes_nothing_witness:
  "\<not> {''Casting'', ''Year'', ''Series''}
       \<subseteq> set (columns \<lparr>columns = [''Casting''], rows = [[Some ''Mongoose'']]\<rparr>) \<union> set (columns series_table)
   \<and> fst (create_combined_csv_file (page_env 200 None) empty_world ''Casting''
         \<lparr>columns = [''Casting''], rows = [[Some ''Mongoose'']]\<rparr> series_table) = Inr ()
   \<and> files (snd (create_combined_csv_file (page_env 200 None) empty_world ''Casting''
         \<lparr>columns = [''Casting''], rows = [[Some ''Mongoose'']]\<rparr> series_table)) (OUTPUT_DIR @ ''/redlines.csv'') = None
   \<and> files (snd (create_combined_csv_file (page_env 200 None) empty_world ''Casting''
         \<lparr>columns = [''Casting''], rows = [[Some ''Mongoose'']]\<rparr> series_table)) (OUTPUT_DIR @ ''/redlines.json'') = None"
proof -
  have h: "\<not> {''Casting'', ''Year'', ''Series''}
       \<subseteq> set (columns \<lparr>columns = [''Casting''], rows = [[Some ''Mongoose'']]\<rparr>) \<union> set (columns series_table)"
    by (simp add: series_table_def)
  have e: "files empty_world = Map.empty"
    by (simp add: empty_world_def)
  show ?thesis
    using h column_mismatch_writes_nothing[OF h, of "page_env 200 None" empty_world]
    by (simp add: e)
qed

section \<open>\<^verbatim>\<open>create_csv_files\<close>\<close>

lemma fst_scrape_try_world:
  "fst (scrape_try e w url i outfile main) = fst (scrape_try e w' url i outfile main)"
  by (simp add: scrape_try_def Let_def split: sum.split option.split)

lemma fst_scrape_url:
  "fst (scrape_url e w url i outfile main) =
    (case fst (scrape_try e w url i outfile main) of Inl ex \<Rightarrow> None | Inr df \<Rightarrow> Some df)"
  by (cases "scrape_try e w url i outfile main") (simp add: scrape_url_def split: sum.split)

lemma fst_scrape_url_world:
  "fst (scrape_url e w url i outfile main) = fst (scrape_url e w' url i outfile main)"
  by (simp only: fst_scrape_url fst_scrape_try_world[of e w url i outfile main w'])

lemma scrape_try_frame:
  "fst (scrape_try e w url i outfile main) = Inr df \<Longrightarrow> \<exists>vs. df = to_frame main vs"
  by (auto simp: scrape_try_def Let_def normalize_frame_def split: sum.splits option.splits)

lemma scrape_url_frame:
  assumes "fst (scrape_url e w url i outfile main) = Some df"
  shows "\<exists>vs. df = to_frame main vs"
proof -
  from assms have "fst (scrape_try e w url i outfile main) = Inr df"
    by (simp add: fst_scrape_url split: sum.splits)
  then show ?thesis
    by (rule scrape_try_frame)
qed

lemma fst_submit_all:
  "fst (submit_all e w main units) =
    map (\<lambda>(label, idx). (label, fst (scrape_url e w0 (unit_url label) idx (unit_outfile label) main))) units"
proof (induction units arbitrary: w)
  case Nil
  show ?case by simp
next
  case (Cons u units)
  obtain label idx where u: "u = (label, idx)"
    by (cases u)
  obtain df w1 where r: "scrape_url e w (unit_url label) idx (unit_outfile label) main = (df, w1)"
    by (cases "scrape_url e w (unit_url label) idx (unit_outfile label) main")
  have "df = fst (scrape_url e w0 (unit_url label) idx (unit_outfile label) main)"
    using r fst_scrape_url_world[of e w "unit_url label" idx "unit_outfile label" main w0] by simp
  then show ?case
    using Cons[of w1] by (simp add: u r split_def)
qed

lemma spec_dedupe_append_known:
  "distinct cs \<Longrightarrow> set ys \<subseteq> set cs \<Longrightarrow> spec_dedupe (cs @ ys) = cs"
proof (induction cs arbitrary: ys)
  case Nil
  then show ?case by simp
next
  case (Cons c cs)
  have f: "filter (\<lambda>y. y \<noteq> c) cs = cs"
    using Cons.prems(1) by (auto simp: filter_id_conv)
  have "set (filter (\<lambda>y. y \<noteq> c) ys) \<subseteq> set cs"
    using Cons.prems(2) by auto
  with Cons.IH[of "filter (\<lambda>y. y \<noteq> c) ys"] Cons.prems(1)
  have "spec_dedupe (cs @ filter (\<lambda>y. y \<noteq> c) ys) = cs"
    by simp
  then show ?case
    by (simp add: f)
qed

lemma row_get_same_columns:
  assumes "distinct cs" and "length r = length cs"
  shows "map (row_get cs r) cs = r"
proof (rule nth_equalityI)
  show "length (map (row_get cs r) cs) = length r"
    using assms(2) by simp
next
  fix i
  assume "i < length (map (row_get cs r) cs)"
  then have i: "i < length cs"
    by simp
  have "map_of (zip cs r) (cs ! i) = Some (r ! i)"
    using assms i by (simp add: map_of_zip_nth)
  then show "map (row_get cs r) cs ! i = r ! i"
    using i by (simp add: row_get_def)
qed

lemma pd_concat_same_columns:
  assumes "dfs \<noteq> []" and "distinct cs"
    and "\<forall>d\<in>set dfs. columns d = cs \<and> (\<forall>r\<in>set (rows d). length r = length cs)"
  shows "pd_concat dfs = \<lparr>columns = cs, rows = concat (map rows dfs)\<rparr>"
proof -
  obtain d ds where dfs: "dfs = d # ds"
    using assms(1) by (cases dfs) simp_all
  have "set (concat (map columns ds)) \<subseteq> set cs"
    using assms(3) by (auto simp: dfs)
  moreover have "columns d = cs"
    using assms(3) by (simp add: dfs)
  ultimately have cols: "drop_duplicates (concat (map columns dfs)) = cs"
    using assms(2) by (simp add: dfs drop_duplicates_spec spec_dedupe_append_known)
  have "map (\<lambda>r. map (row_get (columns x) r) cs) (rows x) = rows x" if "x \<in> set dfs" for x
  proof (rule map_idI)
    fix r
    assume "r \<in> set (rows x)"
    with that assms(3) have "columns x = cs" and "length r = length cs"
      by simp_all
    then show "map (row_get (columns x) r) cs = r"
      using assms(2) by (simp add: row_get_same_columns)
  qed
  then have eq: "map (\<lambda>df. map (\<lambda>r. map (row_get (columns df) r) cs) (rows df)) dfs = map rows dfs"
    by (intro map_cong) simp_all
  show ?thesis
    by (simp only: pd_concat_def Let_def cols eq)
qed

lemma assign_column_to_frame:
  "main \<noteq> key \<Longrightarrow>
    assign_column (to_frame main vs) key x =
      \<lparr>columns = [main, key], rows = map (\<lambda>r. r @ [Some x]) (rows (to_frame main vs))\<rparr>"
  by (simp add: assign_column_def to_frame_def)

lemma collect_frames:
  assumes "main \<noteq> key"
    and "\<forall>(label, res)\<in>set completed. \<forall>df. res = Some df \<longrightarrow> (\<exists>vs. df = to_frame main vs)"
  shows "(\<forall>d\<in>set (collect key completed).
            columns d = [main, key] \<and> (\<forall>r\<in>set (rows d). length r = length [main, key]))
    \<and> concat (map rows (collect key completed)) =
        concat (map (\<lambda>(label, res). case res of None \<Rightarrow> [] | Some df \<Rightarrow> map (\<lambda>r. r @ [Some (Str label)]) (rows df))
          completed)"
  using assms(2)
proof (induction completed)
  case Nil
  show ?case by (simp add: collect_def)
next
  case (Cons c completed)
  obtain label res where c: "c = (label, res)"
    by (cases c)
  have ih: "(\<forall>d\<in>set (collect key completed).
            columns d = [main, key] \<and> (\<forall>r\<in>set (rows d). length r = length [main, key]))
    \<and> concat (map rows (collect key completed)) =
        concat (map (\<lambda>(label, res). case res of None \<Rightarrow> [] | Some df \<Rightarrow> map (\<lambda>r. r @ [Some (Str label)]) (rows df))
          completed)"
    using Cons by simp
  have step: "collect key ((label, r) # completed) =
      (case r of None \<Rightarrow> [] | Some d \<Rightarrow> [assign_column d key (Str label)]) @ collect key completed" for r
    by (simp add: collect_def)
  show ?case
  proof (cases res)
    case None
    then show ?thesis
      using ih by (simp add: step c)
  next
    case (Some df)
    then obtain vs where df: "df = to_frame main vs"
      using Cons.prems by (auto simp: c)
    have a: "assign_column df key (Str label) =
        \<lparr>columns = [main, key], rows = map (\<lambda>r. r @ [Some (Str label)]) (rows df)\<rparr>"
      unfolding df by (rule assign_column_to_frame[OF assms(1)])
    have len: "\<forall>r\<in>set (rows df). length r = 1"
      by (simp add: df to_frame_def)
    show ?thesis
      using ih len by (simp add: step c Some a)
  qed
qed

lemma collect_all_none:
  assumes "\<forall>c\<in>set completed. snd c = None"
  shows "collect key completed = []"
  using assms by (induction completed) (auto simp: collect_def)

lemma in_concat_map: "x \<in> set (concat (map f xs)) \<Longrightarrow> \<exists>c\<in>set xs. x \<in> set (f c)"
  by (induction xs) auto

lemma tagged_row_origin:
  assumes "row \<in> set (concat (map (\<lambda>(label, res).
      case res of None \<Rightarrow> [] | Some df \<Rightarrow> map (\<lambda>r. r @ [Some (Str label)]) (rows df)) completed))"
  shows "\<exists>label df r. (label, Some df) \<in> set completed \<and> r \<in> set (rows df) \<and> row = r @ [Some (Str label)]"
proof -
  from in_concat_map[OF assms] obtain c where c: "c \<in> set completed"
    and row: "row \<in> set (case c of (label, res) \<Rightarrow>
      case res of None \<Rightarrow> [] | Some df \<Rightarrow> map (\<lambda>r. r @ [Some (Str label)]) (rows df))"
    by (rule bexE)
  obtain label res where lr: "c = (label, res)"
    by (cases c)
  from row obtain df where res: "res = Some df" and "row \<in> (\<lambda>r. r @ [Some (Str label)]) ` set (rows df)"
    unfolding lr by (cases res) simp_all
  then obtain r where "r \<in> set (rows df)" and "row = r @ [Some (Str label)]"
    by (rule_tac imageE)
  with c have "(label, Some df) \<in> set completed \<and> r \<in> set (rows df) \<and> row = r @ [Some (Str label)]"
    by (simp add: lr res)
  then show ?thesis
    by (intro exI)
qed

text \<open>
  C7. Whatever the order in which the units complete, the rows of the table that
  \<^verbatim>\<open>create_csv_files\<close> returns are the rows of the units whose \<^verbatim>\<open>scrape_url\<close> returned a
  frame, each with the label of its unit; a unit that returned \<^verbatim>\<open>None\<close> gives no row,
  every row is a name with the label of a unit that returned a frame holding the name,
  and when every unit returned \<^verbatim>\<open>None\<close> the result is the empty table.
\<close>

theorem null_units_are_skipped:
  assumes "main \<noteq> dict_key" and "\<And>fs. mset (completion fs) = mset fs"
  shows
    "rows (fst (create_csv_files e completion w main data_dict dict_key)) =
       concat (map (\<lambda>(label, res).
           case res of None \<Rightarrow> [] | Some df \<Rightarrow> map (\<lambda>r. r @ [Some (Str label)]) (rows df))
         (completion (map (\<lambda>(label, idx).
             (label, fst (scrape_url e w (unit_url label) idx (unit_outfile label) main)))
           (zip (fst data_dict) (snd data_dict)))))
     \<and> (\<forall>row\<in>set (rows (fst (create_csv_files e completion w main data_dict dict_key))).
          \<exists>label idx df v. (label, idx) \<in> set (zip (fst data_dict) (snd data_dict))
            \<and> fst (scrape_url e w (unit_url label) idx (unit_outfile label) main) = Some df
            \<and> [Some v] \<in> set (rows df) \<and> row = [Some v, Some (Str label)])
     \<and> ((\<forall>(label, idx)\<in>set (zip (fst data_dict) (snd data_dict)).
            fst (scrape_url e w (unit_url label) idx (unit_outfile label) main) = None)
          \<longrightarrow> fst (create_csv_files e completion w main data_dict dict_key) = empty_frame)"
proof -
  define units where "units = zip (fst data_dict) (snd data_dict)"
  define results where "results = map (\<lambda>(label, idx).
      (label, fst (scrape_url e w (unit_url label) idx (unit_outfile label) main))) units"
  define comp where "comp = completion results"
  define tagged where "tagged = concat (map (\<lambda>(label, res).
      case res of None \<Rightarrow> [] | Some df \<Rightarrow> map (\<lambda>r. r @ [Some (Str label)]) (rows df)) comp)"
  have set_comp: "set comp = set results"
    unfolding comp_def using assms(2)[of results] by (rule mset_eq_setD)
  have origin: "\<exists>idx. (label, idx) \<in> set units
      \<and> fst (scrape_url e w (unit_url label) idx (unit_outfile label) main) = res"
    if "(label, res) \<in> set comp" for label res
  proof -
    from that have "(label, res) \<in> set results"
      by (simp only: set_comp)
    then obtain u where u: "u \<in> set units"
      and eq: "(label, res) = (case u of (label, idx) \<Rightarrow>
        (label, fst (scrape_url e w (unit_url label) idx (unit_outfile label) main)))"
      unfolding results_def set_map by (rule imageE)
    obtain l idx where "u = (l, idx)"
      by (cases u)
    with u eq show ?thesis
      by auto
  qed
  have frames: "\<forall>(label, res)\<in>set comp. \<forall>df. res = Some df \<longrightarrow> (\<exists>vs. df = to_frame main vs)"
  proof (intro ballI, clarify)
    fix label df
    assume "(label, Some df) \<in> set comp"
    from origin[OF this] obtain idx where
      "fst (scrape_url e w (unit_url label) idx (unit_outfile label) main) = Some df"
      by blast
    then show "\<exists>vs. df = to_frame main vs"
      by (rule scrape_url_frame)
  qed
  note cf = collect_frames[OF assms(1) frames]
  have run: "fst (create_csv_files e completion w main data_dict dict_key) =
      (if collect dict_key comp \<noteq> [] then pd_concat (collect dict_key comp) else empty_frame)"
    by (simp add: create_csv_files_def Let_def split_def comp_def results_def units_def
        fst_submit_all[of e _ main _ w])
  have rows_run: "rows (fst (create_csv_files e completion w main data_dict dict_key)) = tagged"
  proof (cases "collect dict_key comp = []")
    case True
    with cf have "tagged = []"
      by (simp add: tagged_def)
    with True show ?thesis
      by (simp add: run empty_frame_def)
  next
    case False
    have "distinct [main, dict_key]"
      using assms(1) by simp
    from pd_concat_same_columns[OF False this conjunct1[OF cf]]
    have "rows (pd_concat (collect dict_key comp)) = concat (map rows (collect dict_key comp))"
      by simp
    with False show ?thesis
      by (simp add: run tagged_def conjunct2[OF cf])
  qed
  have well_formed: "\<exists>label idx df v. (label, idx) \<in> set units
      \<and> fst (scrape_url e w (unit_url label) idx (unit_outfile label) main) = Some df
      \<and> [Some v] \<in> set (rows df) \<and> row = [Some v, Some (Str label)]"
    if "row \<in> set tagged" for row
  proof -
    from tagged_row_origin[OF that[unfolded tagged_def]] obtain label df r where
      c: "(label, Some df) \<in> set comp" and r: "r \<in> set (rows df)" and row: "row = r @ [Some (Str label)]"
      by blast
    from origin[OF c] obtain idx where u: "(label, idx) \<in> set units"
      and s: "fst (scrape_url e w (unit_url label) idx (unit_outfile label) main) = Some df"
      by blast
    from scrape_url_frame[OF s] obtain vs where "df = to_frame main vs"
      by blast
    with r obtain v where "r = [Some v]"
      by (auto simp: to_frame_def)
    with u s r row show ?thesis
      by auto
  qed
  have all_none: "fst (create_csv_files e completion w main data_dict dict_key) = empty_frame"
    if "\<forall>(label, idx)\<in>set units.
      fst (scrape_url e w (unit_url label) idx (unit_outfile label) main) = None"
  proof -
    have "\<forall>c\<in>set comp. snd c = None"
    proof
      fix c
      assume c: "c \<in> set comp"
      obtain label res where "c = (label, res)"
        by (cases c)
      with c origin[of label res] that show "snd c = None"
        by auto
    qed
    then have "collect dict_key comp = []"
      by (rule collect_all_none)
    then show ?thesis
      by (simp add: run)
  qed
  show ?thesis
  proof (intro conjI ballI impI)
    show "rows (fst (create_csv_files e completion w main data_dict dict_key)) =
       concat (map (\<lambda>(label, res).
           case res of None \<Rightarrow> [] | Some df \<Rightarrow> map (\<lambda>r. r @ [Some (Str label)]) (rows df))
         (completion (map (\<lambda>(label, idx).
             (label, fst (scrape_url e w (unit_url label) idx (unit_outfile label) main)))
           (zip (fst data_dict) (snd data_dict)))))"
      using rows_run unfolding tagged_def comp_def results_def units_def .
  next
    fix row
    assume "row \<in> set (rows (fst (create_csv_files e completion w main data_dict dict_key)))"
    then have "row \<in> set tagged"
      by (simp only: rows_run)
    from well_formed[OF this]
    show "\<exists>label idx df v. (label, idx) \<in> set (zip (fst data_dict) (snd data_dict))
            \<and> fst (scrape_url e w (unit_url label) idx (unit_outfile label) main) = Some df
            \<and> [Some v] \<in> set (rows df) \<and> row = [Some v, Some (Str label)]"
      unfolding units_def .
  next
    assume "\<forall>(label, idx)\<in>set (zip (fst data_dict) (snd data_dict)).
            fst (scrape_url e w (unit_url label) idx (unit_outfile label) main) = None"
    then have "\<forall>(label, idx)\<in>set units.
        fst (scrape_url e w (unit_url label) idx (unit_outfile label) main) = None"
      unfolding units_def .
    then show "fst (create_csv_files e completion w main data_dict dict_key) = empty_frame"
      by (rule all_none)
  qed
qed

theorem null_units_are_skipped_witness:
  "''Casting'' \<noteq> ''Year''
   \<and> (\<forall>fs :: (string \<times> int pyval dataframe option) list. mset (rev fs) = mset fs)
   \<and> fst (scrape_url (page_env 200 (Some empty_table)) empty_world (unit_url ''1968'') 0
          (unit_outfile ''1968'') ''Casting'') = None
   \<and> fst (create_csv_files (page_env 200 (Some empty_table)) rev empty_world ''Casting''
          ([''1968''], [0]) ''Year'') = empty_frame
   \<and> fst (scrape_url flaky_env empty_world (unit_url ''1968'') 0 (unit_outfile ''1968'') ''Casting'') = None
   \<and> rows (fst (create_csv_files flaky_env rev empty_world ''Casting'' ([''1968'', ''1969''], [0, 0]) ''Year''))
       = [[Some (Str ''Mongoose II''), Some (Str ''1969'')], [Some (Str ''Snake''), Some (Str ''1969'')]]"
proof -
  have a: "''Casting'' \<noteq> ''Year''"
    by simp
  have b: "mset (rev fs) = mset fs" for fs :: "(string \<times> int pyval dataframe option) list"
    by simp
  have n: "fst (scrape_url (page_env 200 (Some empty_table)) empty_world (unit_url ''1968'') 0
      (unit_outfile ''1968'') ''Casting'') = None"
    by code_simp
  then have h: "\<forall>(label, idx)\<in>set (zip (fst ([''1968''], [0])) (snd ([''1968''], [0::int]))).
      fst (scrape_url (page_env 200 (Some empty_table)) empty_world (unit_url label) idx
        (unit_outfile label) ''Casting'') = None"
    by simp
  from null_units_are_skipped[OF a b, of "page_env 200 (Some empty_table)" empty_world "([''1968''], [0])"]
  have c: "fst (create_csv_files (page_env 200 (Some empty_table)) rev empty_world ''Casting''
      ([''1968''], [0]) ''Year'') = empty_frame"
    using h by blast
  have m: "fst (scrape_url flaky_env empty_world (unit_url ''1968'') 0 (unit_outfile ''1968'') ''Casting'') = None"
    by code_simp
  have v: "concat (map (\<lambda>(label, res).
           case res of None \<Rightarrow> [] | Some df \<Rightarrow> map (\<lambda>r. r @ [Some (Str label)]) (rows df))
         (rev (map (\<lambda>(label, idx).
             (label, fst (scrape_url flaky_env empty_world (unit_url label) idx (unit_outfile label) ''Casting'')))
           (zip (fst ([''1968'', ''1969''], [0, 0])) (snd ([''1968'', ''1969''], [0, 0::int]))))))
       = [[Some (Str ''Mongoose II''), Some (Str ''1969'')], [Some (Str ''Snake''), Some (Str ''1969'')]]"
    by code_simp
  from null_units_are_skipped[OF a b, of flaky_env empty_world "([''1968'', ''1969''], [0, 0])"]
  have d: "rows (fst (create_csv_files flaky_env rev empty_world ''Casting'' ([''1968'', ''1969''], [0, 0]) ''Year''))
       = [[Some (Str ''Mongoose II''), Some (Str ''1969'')], [Some (Str ''Snake''), Some (Str ''1969'')]]"
    unfolding v by (rule conjunct1)
  show ?thesis
    using a b n c m d by blast
qed

end
